theory Spec2Isabelle
  imports Main
begin

unbundle bit_operations_syntax

section \<open>Data of the program\<close>

text \<open>
  Go's \<open>[]byte\<close> and \<open>string\<close> are sequences of 8-bit values; both are modelled as
  \<open>char list\<close>, whose characters are exactly the values 0..255. A nil slice and an
  empty one are the same list.
\<close>

type_synonym bytes = string

text \<open>
  The values of \<open>int64\<close>, and of \<open>int\<close>, which is 64 bits wide on the platforms the
  program is built for.
\<close>

definition int64 :: "int \<Rightarrow> bool" where
  "int64 i = (- 9223372036854775808 \<le> i \<and> i < 9223372036854775808)"

text \<open>
  A Go call either returns or panics (a nil pointer dereference here); the panic is a
  value of the model.
\<close>

datatype 'a go = Panic | Ret 'a

text \<open>\<open>CacheEntry\<close> (package \<open>cache\<close>) and \<open>TushareAPIResult\<close> (package \<open>api\<close>).\<close>

record CacheEntry =
  RequestBody :: bytes
  ResponseBody :: bytes
  StatusCode :: int
  Timestamp :: int

record TushareAPIResult =
  Code :: int
  Msg :: bytes

section \<open>Library functions the program calls\<close>

subsection \<open>SHA-256 (\<open>crypto/sha256\<close>, FIPS 180-4) and hexadecimal encoding\<close>

text \<open>
  \<open>uint32\<close> values are natural numbers below \<open>2 ^ 32\<close>; addition and rotation write
  the wrap-around out.
\<close>

type_synonym u32 = nat

definition K256 :: "u32 list" where
  "K256 =
     [0x428a2f98, 0x71374491, 0xb5c0fbcf, 0xe9b5dba5] @
     [0x3956c25b, 0x59f111f1, 0x923f82a4, 0xab1c5ed5] @
     [0xd807aa98, 0x12835b01, 0x243185be, 0x550c7dc3] @
     [0x72be5d74, 0x80deb1fe, 0x9bdc06a7, 0xc19bf174] @
     [0xe49b69c1, 0xefbe4786, 0x0fc19dc6, 0x240ca1cc] @
     [0x2de92c6f, 0x4a7484aa, 0x5cb0a9dc, 0x76f988da] @
     [0x983e5152, 0xa831c66d, 0xb00327c8, 0xbf597fc7] @
     [0xc6e00bf3, 0xd5a79147, 0x06ca6351, 0x14292967] @
     [0x27b70a85, 0x2e1b2138, 0x4d2c6dfc, 0x53380d13] @
     [0x650a7354, 0x766a0abb, 0x81c2c92e, 0x92722c85] @
     [0xa2bfe8a1, 0xa81a664b, 0xc24b8b70, 0xc76c51a3] @
     [0xd192e819, 0xd6990624, 0xf40e3585, 0x106aa070] @
     [0x19a4c116, 0x1e376c08, 0x2748774c, 0x34b0bcb5] @
     [0x391c0cb3, 0x4ed8aa4a, 0x5b9cca4f, 0x682e6ff3] @
     [0x748f82ee, 0x78a5636f, 0x84c87814, 0x8cc70208] @
     [0x90befffa, 0xa4506ceb, 0xbef9a3f7, 0xc67178f2]"

definition add32 :: "u32 \<Rightarrow> u32 \<Rightarrow> u32" where
  "add32 x y = (x + y) mod 4294967296"

definition rotr32 :: "nat \<Rightarrow> u32 \<Rightarrow> u32" where
  "rotr32 n x = (x div 2 ^ n) OR ((x * 2 ^ (32 - n)) mod 4294967296)"

definition not32 :: "u32 \<Rightarrow> u32" where
  "not32 x = x XOR 4294967295"

type_synonym digest = "u32 \<times> u32 \<times> u32 \<times> u32 \<times> u32 \<times> u32 \<times> u32 \<times> u32"

definition init_digest :: digest where
  "init_digest = (0x6a09e667, 0xbb67ae85, 0x3c6ef372, 0xa54ff53a, 0x510e527f, 0x9b05688c, 0x1f83d9ab, 0x5be0cd19)"

definition be32 :: "char \<Rightarrow> char \<Rightarrow> char \<Rightarrow> char \<Rightarrow> u32" where
  "be32 a b c d = of_char a * 16777216 OR of_char b * 65536 OR of_char c * 256 OR of_char d"

fun block_words :: "bytes \<Rightarrow> u32 list" where
  "block_words (a # b # c # d # p) = be32 a b c d # block_words p"
| "block_words _ = []"

definition ssig0 :: "u32 \<Rightarrow> u32" where
  "ssig0 v = rotr32 7 v XOR rotr32 18 v XOR (v div 2 ^ 3)"

definition ssig1 :: "u32 \<Rightarrow> u32" where
  "ssig1 v = rotr32 17 v XOR rotr32 19 v XOR (v div 2 ^ 10)"

definition schedule_step :: "u32 list \<Rightarrow> nat \<Rightarrow> u32 list" where
  "schedule_step w i =
     w @ [add32 (add32 (add32 (ssig1 (w ! (i - 2))) (w ! (i - 7))) (ssig0 (w ! (i - 15)))) (w ! (i - 16))]"

definition T1 :: "u32 \<Rightarrow> u32 \<Rightarrow> u32 \<Rightarrow> u32 \<Rightarrow> u32 \<Rightarrow> u32 \<Rightarrow> u32" where
  "T1 e f g h k w =
     add32 (add32 (add32 (add32 h (rotr32 6 e XOR rotr32 11 e XOR rotr32 25 e))
       ((e AND f) XOR (not32 e AND g))) k) w"

definition T2 :: "u32 \<Rightarrow> u32 \<Rightarrow> u32 \<Rightarrow> u32" where
  "T2 a b c = add32 (rotr32 2 a XOR rotr32 13 a XOR rotr32 22 a) ((a AND b) XOR (a AND c) XOR (b AND c))"

definition rotate_vars :: "digest \<Rightarrow> u32 \<Rightarrow> u32 \<Rightarrow> digest" where
  "rotate_vars v t1 t2 = (case v of (a, b, c, d, e, f, g, h) \<Rightarrow> (add32 t1 t2, a, b, c, add32 d t1, e, f, g))"

fun round256 :: "digest \<Rightarrow> u32 \<times> u32 \<Rightarrow> digest" where
  "round256 (a, b, c, d, e, f, g, h) (k, w) =
     rotate_vars (a, b, c, d, e, f, g, h) (T1 e f g h k w) (T2 a b c)"

fun add_digest :: "digest \<Rightarrow> digest \<Rightarrow> digest" where
  "add_digest (h0, h1, h2, h3, h4, h5, h6, h7) (a, b, c, d, e, f, g, h) =
     (add32 h0 a, add32 h1 b, add32 h2 c, add32 h3 d, add32 h4 e, add32 h5 f, add32 h6 g, add32 h7 h)"

definition block :: "digest \<Rightarrow> bytes \<Rightarrow> digest" where
  "block dig p = add_digest dig (foldl round256 dig (zip K256 (foldl schedule_step (block_words p) [16..<64])))"

fun blocks :: "digest \<Rightarrow> bytes \<Rightarrow> digest" where
  "blocks dig p = (if length p < 64 then dig else blocks (block dig (take 64 p)) (drop 64 p))"

declare blocks.simps [simp del]

definition be64_bytes :: "nat \<Rightarrow> bytes" where
  "be64_bytes n = map (\<lambda>i. char_of (n div 256 ^ i)) [7, 6, 5, 4, 3, 2, 1, 0]"

text \<open>The padding: the byte \<open>0x80\<close>, zero bytes up to 56 modulo 64 and the length in bits.\<close>

definition pad_len :: "nat \<Rightarrow> nat" where
  "pad_len len = (if len mod 64 < 56 then 56 - len mod 64 else 64 + 56 - len mod 64)"

definition padding :: "nat \<Rightarrow> bytes" where
  "padding len =
     CHR 0x80 # replicate (pad_len len - 1) (CHR 0x00) @ be64_bytes ((len * 8) mod 18446744073709551616)"

definition be32_bytes :: "u32 \<Rightarrow> bytes" where
  "be32_bytes w = [char_of (w div 16777216), char_of (w div 65536), char_of (w div 256), char_of w]"

fun digest_bytes :: "digest \<Rightarrow> bytes" where
  "digest_bytes (h0, h1, h2, h3, h4, h5, h6, h7) =
     concat (map be32_bytes [h0, h1, h2, h3, h4, h5, h6, h7])"

definition Sum256 :: "bytes \<Rightarrow> bytes" where
  "Sum256 p = digest_bytes (blocks init_digest (p @ padding (length p)))"

text \<open>\<open>hex.EncodeToString\<close>: two characters of \<open>hextable\<close> for every byte.\<close>

definition hextable :: string where
  "hextable = ''0123456789abcdef''"

definition EncodeToString :: "bytes \<Rightarrow> string" where
  "EncodeToString src =
     concat (map (\<lambda>v. [hextable ! (of_char v div 16), hextable ! (of_char v mod 16)]) src)"

text \<open>
  The number a string of lowercase hexadecimal digits denotes, and the number a byte
  sequence denotes with the most significant byte first.
\<close>

definition hex_digit_value :: "char \<Rightarrow> nat" where
  "hex_digit_value c = (if (of_char c :: nat) < 97 then of_char c - 48 else of_char c - 87)"

definition hex_value :: "string \<Rightarrow> nat" where
  "hex_value s = foldl (\<lambda>a c. a * 16 + hex_digit_value c) 0 s"

definition be_value :: "bytes \<Rightarrow> nat" where
  "be_value bs = foldl (\<lambda>a b. a * 256 + of_char b) 0 bs"

subsection \<open>JSON values and the scanner of \<open>encoding/json\<close>\<close>

datatype json =
  JNull | JBool bool | JNum string | JStr "nat list" | JArr "json list"
  | JObj "(nat list \<times> json) list"

datatype strsub = SPlain | SEsc | SU4 | SU3 | SU2 | SU1
datatype numsub = NNeg | NZero | NInt | NDot | NFrac | NE | NESign | NExp
datatype frame = FArr "json list" | FObj "(nat list \<times> json) list" "nat list option"
datatype pmode =
  MValue | MArrFirst | MObjFirst | MObjKey | MColon | MAfter
  | MStr bool strsub bytes | MNum numsub bytes | MLit string json | MEnd json

type_synonym pstate = "pmode \<times> frame list"

definition is_space :: "char \<Rightarrow> bool" where
  "is_space c = (c = CHR '' '' \<or> c = CHR 0x09 \<or> c = CHR 0x0D \<or> c = CHR 0x0A)"

definition is_digit :: "char \<Rightarrow> bool" where
  "is_digit c = (48 \<le> (of_char c :: nat) \<and> (of_char c :: nat) \<le> 57)"

definition is_digit19 :: "char \<Rightarrow> bool" where
  "is_digit19 c = (49 \<le> (of_char c :: nat) \<and> (of_char c :: nat) \<le> 57)"

definition is_hex :: "char \<Rightarrow> bool" where
  "is_hex c = (is_digit c \<or> (97 \<le> (of_char c :: nat) \<and> (of_char c :: nat) \<le> 102)
                \<or> (65 \<le> (of_char c :: nat) \<and> (of_char c :: nat) \<le> 70))"

definition hex_val :: "char \<Rightarrow> nat" where
  "hex_val c = (if is_digit c then of_char c - 48
                else if 97 \<le> (of_char c :: nat) then of_char c - 87 else of_char c - 55)"

text \<open>\<open>utf8.DecodeRune\<close>: the code point and the number of bytes read; an invalid or
  truncated sequence is U+FFFD of width 1.\<close>

definition is_cont :: "char \<Rightarrow> bool" where
  "is_cont c = (128 \<le> (of_char c :: nat) \<and> (of_char c :: nat) \<le> 191)"

definition cont_val :: "char \<Rightarrow> nat" where
  "cont_val c = of_char c mod 64"

fun DecodeRune :: "bytes \<Rightarrow> nat \<times> nat" where
  "DecodeRune [] = (65533, 1)"
| "DecodeRune (b0 # p) =
     (let x = (of_char b0 :: nat) in
      if x < 128 then (x, 1)
      else if 194 \<le> x \<and> x \<le> 223 then
        (case p of
           b1 # _ \<Rightarrow> if is_cont b1 then ((x mod 32) * 64 + cont_val b1, 2) else (65533, 1)
         | _ \<Rightarrow> (65533, 1))
      else if 224 \<le> x \<and> x \<le> 239 then
        (case p of
           b1 # b2 # _ \<Rightarrow>
             if (if x = 224 then 160 else 128) \<le> (of_char b1 :: nat)
                \<and> (of_char b1 :: nat) \<le> (if x = 237 then 159 else 191) \<and> is_cont b2
             then ((x mod 16) * 4096 + cont_val b1 * 64 + cont_val b2, 3) else (65533, 1)
         | _ \<Rightarrow> (65533, 1))
      else if 240 \<le> x \<and> x \<le> 244 then
        (case p of
           b1 # b2 # b3 # _ \<Rightarrow>
             if (if x = 240 then 144 else 128) \<le> (of_char b1 :: nat)
                \<and> (of_char b1 :: nat) \<le> (if x = 244 then 143 else 191) \<and> is_cont b2 \<and> is_cont b3
             then ((x mod 8) * 262144 + cont_val b1 * 4096 + cont_val b2 * 64 + cont_val b3, 4)
             else (65533, 1)
         | _ \<Rightarrow> (65533, 1))
      else (65533, 1))"

definition getu4 :: "char \<Rightarrow> char \<Rightarrow> char \<Rightarrow> char \<Rightarrow> nat" where
  "getu4 a b c d = hex_val a * 4096 + hex_val b * 256 + hex_val c * 16 + hex_val d"

definition is_surrogate :: "nat \<Rightarrow> bool" where
  "is_surrogate r = (55296 \<le> r \<and> r < 57344)"

text \<open>\<open>utf16.DecodeRune\<close>: a high surrogate followed by a low one, or U+FFFD.\<close>

definition utf16_DecodeRune :: "nat \<Rightarrow> nat \<Rightarrow> nat" where
  "utf16_DecodeRune r1 r2 =
     (if 55296 \<le> r1 \<and> r1 < 56320 \<and> 56320 \<le> r2 \<and> r2 < 57344
      then (r1 - 55296) * 1024 + (r2 - 56320) + 65536 else 65533)"

definition unescape :: "char \<Rightarrow> nat" where
  "unescape c =
     (if c = CHR ''b'' then 8 else if c = CHR ''f'' then 12 else if c = CHR ''n'' then 10
      else if c = CHR ''r'' then 13 else if c = CHR ''t'' then 9 else of_char c)"

text \<open>\<open>unquote\<close> on the bytes between the quotes of a literal the scanner accepted.\<close>

fun unquote :: "bytes \<Rightarrow> nat list" where
  "unquote [] = []"
| "unquote (c # s) =
     (if c = CHR 0x5C then
        (case s of
           e # s1 \<Rightarrow>
             if e = CHR ''u'' then
               (case s1 of
                  a # b # c1 # d # s2 \<Rightarrow>
                    (let rr = getu4 a b c1 d in
                     if is_surrogate rr then
                       (case s2 of
                          bs # u # a2 # b2 # c2 # d2 # s3 \<Rightarrow>
                            if bs = CHR 0x5C \<and> u = CHR ''u'' \<and> is_hex a2 \<and> is_hex b2 \<and> is_hex c2 \<and> is_hex d2
                               \<and> utf16_DecodeRune rr (getu4 a2 b2 c2 d2) \<noteq> 65533
                            then utf16_DecodeRune rr (getu4 a2 b2 c2 d2) # unquote s3
                            else 65533 # unquote s2
                        | _ \<Rightarrow> 65533 # unquote s2)
                     else rr # unquote s2)
                | _ \<Rightarrow> [])
             else unescape e # unquote s1
         | [] \<Rightarrow> [])
      else if (of_char c :: nat) < 128 then of_char c # unquote s
      else (case DecodeRune (c # s) of (rr, n) \<Rightarrow> rr # unquote (drop (n - 1) s)))"

fun value_done :: "json \<Rightarrow> frame list \<Rightarrow> pstate option" where
  "value_done v [] = Some (MEnd v, [])"
| "value_done v (FArr es # st) = Some (MAfter, FArr (v # es) # st)"
| "value_done v (FObj ms (Some k) # st) = Some (MAfter, FObj ((k, v) # ms) None # st)"
| "value_done v (FObj ms None # st) = None"

definition maxNestingDepth :: nat where
  "maxNestingDepth = 10000"

definition push_frame :: "pmode \<Rightarrow> frame \<Rightarrow> frame list \<Rightarrow> pstate option" where
  "push_frame m f st = (if length st < maxNestingDepth then Some (m, f # st) else None)"

definition begin_value :: "char \<Rightarrow> frame list \<Rightarrow> pstate option" where
  "begin_value c st =
     (if c = CHR ''{'' then push_frame MObjFirst (FObj [] None) st
      else if c = CHR ''['' then push_frame MArrFirst (FArr []) st
      else if c = CHR 0x22 then Some (MStr False SPlain [], st)
      else if c = CHR ''-'' then Some (MNum NNeg [c], st)
      else if c = CHR ''0'' then Some (MNum NZero [c], st)
      else if is_digit19 c then Some (MNum NInt [c], st)
      else if c = CHR ''t'' then Some (MLit ''rue'' (JBool True), st)
      else if c = CHR ''f'' then Some (MLit ''alse'' (JBool False), st)
      else if c = CHR ''n'' then Some (MLit ''ull'' JNull, st)
      else None)"

fun end_step :: "char \<Rightarrow> pstate \<Rightarrow> pstate option" where
  "end_step c (MEnd v, st) = (if is_space c then Some (MEnd v, st) else None)"
| "end_step c (MAfter, FArr es # st) =
     (if is_space c then Some (MAfter, FArr es # st)
      else if c = CHR '','' then Some (MValue, FArr es # st)
      else if c = CHR '']'' then value_done (JArr (rev es)) st
      else None)"
| "end_step c (MAfter, FObj ms None # st) =
     (if is_space c then Some (MAfter, FObj ms None # st)
      else if c = CHR '','' then Some (MObjKey, FObj ms None # st)
      else if c = CHR ''}'' then value_done (JObj (rev ms)) st
      else None)"
| "end_step c _ = None"

definition num_end :: "char \<Rightarrow> bytes \<Rightarrow> frame list \<Rightarrow> pstate option" where
  "num_end c raw st = (case value_done (JNum (rev raw)) st of None \<Rightarrow> None | Some s \<Rightarrow> end_step c s)"

definition is_exp :: "char \<Rightarrow> bool" where
  "is_exp c = (c = CHR ''e'' \<or> c = CHR ''E'')"

fun num_step :: "char \<Rightarrow> numsub \<Rightarrow> bytes \<Rightarrow> frame list \<Rightarrow> pstate option" where
  "num_step c NNeg raw st =
     (if c = CHR ''0'' then Some (MNum NZero (c # raw), st)
      else if is_digit19 c then Some (MNum NInt (c # raw), st) else None)"
| "num_step c NZero raw st =
     (if c = CHR ''.'' then Some (MNum NDot (c # raw), st)
      else if is_exp c then Some (MNum NE (c # raw), st) else num_end c raw st)"
| "num_step c NInt raw st =
     (if is_digit c then Some (MNum NInt (c # raw), st)
      else if c = CHR ''.'' then Some (MNum NDot (c # raw), st)
      else if is_exp c then Some (MNum NE (c # raw), st) else num_end c raw st)"
| "num_step c NDot raw st = (if is_digit c then Some (MNum NFrac (c # raw), st) else None)"
| "num_step c NFrac raw st =
     (if is_digit c then Some (MNum NFrac (c # raw), st)
      else if is_exp c then Some (MNum NE (c # raw), st) else num_end c raw st)"
| "num_step c NE raw st =
     (if c = CHR ''+'' \<or> c = CHR ''-'' then Some (MNum NESign (c # raw), st)
      else if is_digit c then Some (MNum NExp (c # raw), st) else None)"
| "num_step c NESign raw st = (if is_digit c then Some (MNum NExp (c # raw), st) else None)"
| "num_step c NExp raw st = (if is_digit c then Some (MNum NExp (c # raw), st) else num_end c raw st)"

definition str_end :: "bool \<Rightarrow> bytes \<Rightarrow> frame list \<Rightarrow> pstate option" where
  "str_end k raw st =
     (if k then
        (case st of
           FObj ms None # r \<Rightarrow> Some (MColon, FObj ms (Some (unquote (rev raw))) # r)
         | _ \<Rightarrow> None)
      else value_done (JStr (unquote (rev raw))) st)"

fun str_step :: "char \<Rightarrow> bool \<Rightarrow> strsub \<Rightarrow> bytes \<Rightarrow> frame list \<Rightarrow> pstate option" where
  "str_step c k SPlain raw st =
     (if c = CHR 0x22 then str_end k raw st
      else if c = CHR 0x5C then Some (MStr k SEsc (c # raw), st)
      else if (of_char c :: nat) < 32 then None
      else Some (MStr k SPlain (c # raw), st))"
| "str_step c k SEsc raw st =
     (if c \<in> set ''bfnrt/'' \<or> c = CHR 0x5C \<or> c = CHR 0x22 then Some (MStr k SPlain (c # raw), st)
      else if c = CHR ''u'' then Some (MStr k SU4 (c # raw), st)
      else None)"
| "str_step c k SU4 raw st = (if is_hex c then Some (MStr k SU3 (c # raw), st) else None)"
| "str_step c k SU3 raw st = (if is_hex c then Some (MStr k SU2 (c # raw), st) else None)"
| "str_step c k SU2 raw st = (if is_hex c then Some (MStr k SU1 (c # raw), st) else None)"
| "str_step c k SU1 raw st = (if is_hex c then Some (MStr k SPlain (c # raw), st) else None)"

fun step :: "char \<Rightarrow> pstate \<Rightarrow> pstate option" where
  "step c (MValue, st) = (if is_space c then Some (MValue, st) else begin_value c st)"
| "step c (MArrFirst, st) =
     (if is_space c then Some (MArrFirst, st)
      else if c = CHR '']'' then (case st of FArr es # r \<Rightarrow> value_done (JArr []) r | _ \<Rightarrow> None)
      else begin_value c st)"
| "step c (MObjFirst, st) =
     (if is_space c then Some (MObjFirst, st)
      else if c = CHR ''}'' then (case st of FObj ms k # r \<Rightarrow> value_done (JObj []) r | _ \<Rightarrow> None)
      else if c = CHR 0x22 then Some (MStr True SPlain [], st)
      else None)"
| "step c (MObjKey, st) =
     (if is_space c then Some (MObjKey, st)
      else if c = CHR 0x22 then Some (MStr True SPlain [], st)
      else None)"
| "step c (MColon, st) =
     (if is_space c then Some (MColon, st)
      else if c = CHR '':'' then Some (MValue, st)
      else None)"
| "step c (MAfter, st) = end_step c (MAfter, st)"
| "step c (MEnd v, st) = end_step c (MEnd v, st)"
| "step c (MStr k sub raw, st) = str_step c k sub raw st"
| "step c (MNum sub raw, st) = num_step c sub raw st"
| "step c (MLit [] v, st) = None"
| "step c (MLit (x # xs) v, st) =
     (if c = x then (if xs = [] then value_done v st else Some (MLit xs v, st)) else None)"

fun run :: "pstate option \<Rightarrow> bytes \<Rightarrow> pstate option" where
  "run s [] = s"
| "run s (c # cs) = run (case s of None \<Rightarrow> None | Some p \<Rightarrow> step c p) cs"

text \<open>At the end of the input the scanner is fed one space; the input is a JSON text when
  that leaves it after a complete top-level value.\<close>

definition parse_json :: "bytes \<Rightarrow> json option" where
  "parse_json data =
     (case run (Some (MValue, [])) (data @ '' '') of
        Some (MEnd v, _) \<Rightarrow> Some v
      | _ \<Rightarrow> None)"

subsection \<open>UTF-8 encoding, key folding, number literals\<close>

text \<open>\<open>utf8.AppendRune\<close>.\<close>

definition AppendRune :: "nat \<Rightarrow> bytes" where
  "AppendRune r =
     (if r < 128 then [char_of r]
      else if r < 2048 then [char_of (192 + r div 64), char_of (128 + r mod 64)]
      else if is_surrogate r \<or> 1114111 < r then [CHR 0xEF, CHR 0xBF, CHR 0xBD]
      else if r < 65536 then
        [char_of (224 + r div 4096), char_of (128 + (r div 64) mod 64), char_of (128 + r mod 64)]
      else [char_of (240 + r div 262144), char_of (128 + (r div 4096) mod 64),
            char_of (128 + (r div 64) mod 64), char_of (128 + r mod 64)])"

definition utf8 :: "nat list \<Rightarrow> bytes" where
  "utf8 rs = concat (map AppendRune rs)"

text \<open>
  A member's key selects the field whose name it equals under simple case folding. The
  field names are ASCII; the only code points outside ASCII that fold to an ASCII letter
  are U+017F (to \<open>S\<close>) and U+212A (to \<open>K\<close>), so every other code point is left alone.
\<close>

definition foldRune :: "nat \<Rightarrow> nat" where
  "foldRune r =
     (if 97 \<le> r \<and> r \<le> 122 then r - 32
      else if r = 383 then 83 else if r = 8490 then 75 else r)"

definition key_matches :: "string \<Rightarrow> nat list \<Rightarrow> bool" where
  "key_matches name k = (map foldRune k = map foldRune (map of_char name))"

definition digits_val :: "string \<Rightarrow> nat" where
  "digits_val s = foldl (\<lambda>a c. a * 10 + (of_char c - 48)) 0 s"

text \<open>\<open>strconv.ParseInt(s, 10, 64)\<close> and \<open>strconv.ParseUint(s, 10, 64)\<close>, \<open>None\<close> for an error
  (a syntax error or a value out of range).\<close>

definition ParseUint :: "string \<Rightarrow> nat option" where
  "ParseUint s =
     (if s \<noteq> [] \<and> list_all is_digit s \<and> digits_val s < 18446744073709551616
      then Some (digits_val s) else None)"

definition ParseInt :: "string \<Rightarrow> int option" where
  "ParseInt s =
     (case s of
        [] \<Rightarrow> None
      | c # ds \<Rightarrow>
          if c = CHR ''-'' then
            (if ds \<noteq> [] \<and> list_all is_digit ds \<and> digits_val ds \<le> 9223372036854775808
             then Some (- int (digits_val ds)) else None)
          else if c = CHR ''+'' then
            (if ds \<noteq> [] \<and> list_all is_digit ds \<and> digits_val ds < 9223372036854775808
             then Some (int (digits_val ds)) else None)
          else
            (if list_all is_digit s \<and> digits_val s < 9223372036854775808
             then Some (int (digits_val s)) else None))"

subsection \<open>Base64 (\<open>base64.StdEncoding\<close>)\<close>

definition b64table :: string where
  "b64table = ''ABCDEFGHIJKLMNOPQRSTUVWXYZabcdefghijklmnopqrstuvwxyz0123456789+/''"

fun b64enc :: "bytes \<Rightarrow> string" where
  "b64enc [] = []"
| "b64enc [a] =
     [b64table ! (of_char a div 4), b64table ! ((of_char a mod 4) * 16), CHR ''='', CHR ''='']"
| "b64enc [a, b] =
     [b64table ! (of_char a div 4), b64table ! ((of_char a mod 4) * 16 + of_char b div 16),
      b64table ! ((of_char b mod 16) * 4), CHR ''='']"
| "b64enc (a # b # c # r) =
     [b64table ! (of_char a div 4), b64table ! ((of_char a mod 4) * 16 + of_char b div 16),
      b64table ! ((of_char b mod 16) * 4 + of_char c div 64), b64table ! (of_char c mod 64)]
     @ b64enc r"

definition b64val :: "char \<Rightarrow> nat option" where
  "b64val c =
     (let x = (of_char c :: nat) in
      if 65 \<le> x \<and> x \<le> 90 then Some (x - 65)
      else if 97 \<le> x \<and> x \<le> 122 then Some (x - 71)
      else if 48 \<le> x \<and> x \<le> 57 then Some (x + 4)
      else if c = CHR ''+'' then Some 62
      else if c = CHR ''/'' then Some 63
      else None)"

definition quantum2 :: "char \<Rightarrow> char \<Rightarrow> bytes option" where
  "quantum2 a b =
     (case (b64val a, b64val b) of
        (Some x, Some y) \<Rightarrow> Some [char_of (x * 4 + y div 16)]
      | _ \<Rightarrow> None)"

definition quantum3 :: "char \<Rightarrow> char \<Rightarrow> char \<Rightarrow> bytes option" where
  "quantum3 a b c =
     (case (b64val a, b64val b, b64val c) of
        (Some x, Some y, Some z) \<Rightarrow> Some [char_of (x * 4 + y div 16), char_of ((y mod 16) * 16 + z div 4)]
      | _ \<Rightarrow> None)"

definition quantum4 :: "char \<Rightarrow> char \<Rightarrow> char \<Rightarrow> char \<Rightarrow> bytes option" where
  "quantum4 a b c d =
     (case (b64val a, b64val b, b64val c, b64val d) of
        (Some x, Some y, Some z, Some w) \<Rightarrow>
          Some [char_of (x * 4 + y div 16), char_of ((y mod 16) * 16 + z div 4), char_of ((z mod 4) * 64 + w)]
      | _ \<Rightarrow> None)"

fun b64dec :: "string \<Rightarrow> bytes option" where
  "b64dec [] = Some []"
| "b64dec [a, b, c, d] =
     (if c = CHR ''='' \<and> d = CHR ''='' then quantum2 a b
      else if d = CHR ''='' then quantum3 a b c
      else quantum4 a b c d)"
| "b64dec (a # b # c # d # r) =
     (case quantum4 a b c d of
        None \<Rightarrow> None
      | Some q \<Rightarrow> (case b64dec r of None \<Rightarrow> None | Some bs \<Rightarrow> Some (q @ bs)))"
| "b64dec _ = None"

text \<open>The decoder skips carriage returns and line feeds wherever they stand.\<close>

definition base64_Decode :: "string \<Rightarrow> bytes option" where
  "base64_Decode s = b64dec (filter (\<lambda>c. c \<noteq> CHR 0x0D \<and> c \<noteq> CHR 0x0A) s)"

subsection \<open>Decoding into the two structs\<close>

datatype json_error = SyntaxError | UnmarshalTypeError | CorruptInputError

definition store_int :: "json \<Rightarrow> int \<Rightarrow> json_error + int" where
  "store_int v old =
     (case v of
        JNull \<Rightarrow> Inr old
      | JNum s \<Rightarrow> (case ParseInt s of Some n \<Rightarrow> Inr n | None \<Rightarrow> Inl UnmarshalTypeError)
      | _ \<Rightarrow> Inl UnmarshalTypeError)"

definition store_string :: "json \<Rightarrow> bytes \<Rightarrow> json_error + bytes" where
  "store_string v old =
     (case v of
        JNull \<Rightarrow> Inr old
      | JStr rs \<Rightarrow> Inr (utf8 rs)
      | _ \<Rightarrow> Inl UnmarshalTypeError)"

definition store_uint8 :: "json \<Rightarrow> json_error + char" where
  "store_uint8 v =
     (case v of
        JNull \<Rightarrow> Inr (CHR 0x00)
      | JNum s \<Rightarrow>
          (case ParseUint s of
             Some n \<Rightarrow> if n \<le> 255 then Inr (char_of n) else Inl UnmarshalTypeError
           | None \<Rightarrow> Inl UnmarshalTypeError)
      | _ \<Rightarrow> Inl UnmarshalTypeError)"

fun store_elems :: "json list \<Rightarrow> json_error + bytes" where
  "store_elems [] = Inr []"
| "store_elems (v # vs) =
     (case store_uint8 v of
        Inl e \<Rightarrow> Inl e
      | Inr b \<Rightarrow> (case store_elems vs of Inl e \<Rightarrow> Inl e | Inr bs \<Rightarrow> Inr (b # bs)))"

definition store_bytes :: "json \<Rightarrow> json_error + bytes" where
  "store_bytes v =
     (case v of
        JNull \<Rightarrow> Inr []
      | JStr rs \<Rightarrow> (case base64_Decode (utf8 rs) of Some b \<Rightarrow> Inr b | None \<Rightarrow> Inl CorruptInputError)
      | JArr vs \<Rightarrow> store_elems vs
      | _ \<Rightarrow> Inl UnmarshalTypeError)"

text \<open>The members of an object are stored in order; the first error is the result.\<close>

fun decode_members :: "(nat list \<times> json \<Rightarrow> 'a \<Rightarrow> json_error + 'a) \<Rightarrow> (nat list \<times> json) list \<Rightarrow> 'a \<Rightarrow> json_error + 'a" where
  "decode_members f [] r = Inr r"
| "decode_members f (m # ms) r =
     (case f m r of Inl e \<Rightarrow> Inl e | Inr r' \<Rightarrow> decode_members f ms r')"

definition result_field :: "nat list \<times> json \<Rightarrow> TushareAPIResult \<Rightarrow> json_error + TushareAPIResult" where
  "result_field m r =
     (case m of (k, v) \<Rightarrow>
        if key_matches ''code'' k then
          (case store_int v (Code r) of Inl e \<Rightarrow> Inl e | Inr n \<Rightarrow> Inr (r\<lparr>Code := n\<rparr>))
        else if key_matches ''msg'' k then
          (case store_string v (Msg r) of Inl e \<Rightarrow> Inl e | Inr s \<Rightarrow> Inr (r\<lparr>Msg := s\<rparr>))
        else Inr r)"

text \<open>\<open>json.Unmarshal(response, &result)\<close> with \<open>var result TushareAPIResult\<close>.\<close>

definition Unmarshal_result :: "bytes \<Rightarrow> json_error + TushareAPIResult" where
  "Unmarshal_result data =
     (case parse_json data of
        None \<Rightarrow> Inl SyntaxError
      | Some JNull \<Rightarrow> Inr \<lparr>Code = 0, Msg = []\<rparr>
      | Some (JObj ms) \<Rightarrow> decode_members result_field ms \<lparr>Code = 0, Msg = []\<rparr>
      | Some _ \<Rightarrow> Inl UnmarshalTypeError)"

definition entry_field :: "nat list \<times> json \<Rightarrow> CacheEntry \<Rightarrow> json_error + CacheEntry" where
  "entry_field m r =
     (case m of (k, v) \<Rightarrow>
        if key_matches ''request_body'' k then
          (case store_bytes v of Inl e \<Rightarrow> Inl e | Inr b \<Rightarrow> Inr (r\<lparr>RequestBody := b\<rparr>))
        else if key_matches ''response_body'' k then
          (case store_bytes v of Inl e \<Rightarrow> Inl e | Inr b \<Rightarrow> Inr (r\<lparr>ResponseBody := b\<rparr>))
        else if key_matches ''status_code'' k then
          (case store_int v (StatusCode r) of Inl e \<Rightarrow> Inl e | Inr n \<Rightarrow> Inr (r\<lparr>StatusCode := n\<rparr>))
        else if key_matches ''timestamp'' k then
          (case store_int v (Timestamp r) of Inl e \<Rightarrow> Inl e | Inr n \<Rightarrow> Inr (r\<lparr>Timestamp := n\<rparr>))
        else Inr r)"

text \<open>\<open>json.Unmarshal(val, &entry)\<close> with \<open>var entry *CacheEntry\<close>: \<open>null\<close> leaves the
  pointer nil, an object allocates the struct.\<close>

definition Unmarshal_entry :: "bytes \<Rightarrow> json_error + CacheEntry option" where
  "Unmarshal_entry data =
     (case parse_json data of
        None \<Rightarrow> Inl SyntaxError
      | Some JNull \<Rightarrow> Inr None
      | Some (JObj ms) \<Rightarrow>
          (case decode_members entry_field ms
                  \<lparr>RequestBody = [], ResponseBody = [], StatusCode = 0, Timestamp = 0\<rparr> of
             Inl e \<Rightarrow> Inl e
           | Inr r \<Rightarrow> Inr (Some r))
      | Some _ \<Rightarrow> Inl UnmarshalTypeError)"

subsection \<open>Encoding the two structs\<close>

definition digit_char :: "nat \<Rightarrow> char" where
  "digit_char n = ''0123456789'' ! n"

fun digits :: "nat \<Rightarrow> string" where
  "digits n = (if n < 10 then [digit_char n] else digits (n div 10) @ [digit_char (n mod 10)])"

declare digits.simps [simp del]

definition itoa :: "int \<Rightarrow> string" where
  "itoa i = (if i < 0 then CHR ''-'' # digits (nat (- i)) else digits (nat i))"

definition hexdigit :: "nat \<Rightarrow> char" where
  "hexdigit n = ''0123456789abcdef'' ! n"

definition htmlSafe :: "char \<Rightarrow> bool" where
  "htmlSafe c = (32 \<le> (of_char c :: nat) \<and> c \<noteq> CHR 0x22 \<and> c \<noteq> CHR ''&'' \<and> c \<noteq> CHR ''<''
                   \<and> c \<noteq> CHR ''>'' \<and> c \<noteq> CHR 0x5C)"

definition escape_byte :: "char \<Rightarrow> bytes" where
  "escape_byte c =
     (if c = CHR 0x5C \<or> c = CHR 0x22 then [CHR 0x5C, c]
      else if c = CHR 0x08 then [CHR 0x5C, CHR ''b'']
      else if c = CHR 0x0C then [CHR 0x5C, CHR ''f'']
      else if c = CHR 0x0A then [CHR 0x5C, CHR ''n'']
      else if c = CHR 0x0D then [CHR 0x5C, CHR ''r'']
      else if c = CHR 0x09 then [CHR 0x5C, CHR ''t'']
      else [CHR 0x5C, CHR ''u'', CHR ''0'', CHR ''0'', hexdigit (of_char c div 16), hexdigit (of_char c mod 16)])"

fun appendString :: "bytes \<Rightarrow> bytes" where
  "appendString [] = []"
| "appendString (c # s) =
     (if (of_char c :: nat) < 128 then
        (if htmlSafe c then c # appendString s else escape_byte c @ appendString s)
      else
        (case DecodeRune (c # s) of (rr, n) \<Rightarrow>
           if rr = 65533 \<and> n = 1 then CHR 0x5C # ''ufffd'' @ appendString s
           else if rr = 8232 \<or> rr = 8233 then CHR 0x5C # ''u202'' @ [hexdigit (rr mod 16)] @ appendString (drop (n - 1) s)
           else c # take (n - 1) s @ appendString (drop (n - 1) s)))"

definition Marshal_result :: "TushareAPIResult \<Rightarrow> bytes" where
  "Marshal_result r =
     CHR ''{'' # CHR 0x22 # ''code'' @ CHR 0x22 # CHR '':'' # itoa (Code r)
     @ CHR '','' # CHR 0x22 # ''msg'' @ CHR 0x22 # CHR '':'' # CHR 0x22 # appendString (Msg r) @ [CHR 0x22, CHR ''}'']"

text \<open>A byte slice is written as the base64 of its bytes (a nil slice would be written as
  \<open>null\<close>; \<open>io.ReadAll\<close> never returns one).\<close>

definition Marshal_entry :: "CacheEntry \<Rightarrow> bytes" where
  "Marshal_entry e =
     CHR ''{'' # CHR 0x22 # ''request_body'' @ CHR 0x22 # CHR '':'' # CHR 0x22 # b64enc (RequestBody e)
     @ CHR 0x22 # CHR '','' # CHR 0x22 # ''response_body'' @ CHR 0x22 # CHR '':'' # CHR 0x22 # b64enc (ResponseBody e)
     @ CHR 0x22 # CHR '','' # CHR 0x22 # ''status_code'' @ CHR 0x22 # CHR '':'' # itoa (StatusCode e)
     @ CHR '','' # CHR 0x22 # ''timestamp'' @ CHR 0x22 # CHR '':'' # itoa (Timestamp e) @ ''}''"

text \<open>The printable ASCII characters a string literal holds as they are.\<close>

definition plain :: "char \<Rightarrow> bool" where
  "plain c = (c \<noteq> CHR 0x22 \<and> c \<noteq> CHR 0x5C \<and> 32 \<le> (of_char c :: nat) \<and> (of_char c :: nat) < 128)"

subsection \<open>Wall-clock time (\<open>time\<close>)\<close>

text \<open>
  A reading of the clock is a number of nanoseconds since the Unix epoch. \<open>Unix\<close> is
  \<open>Time.Unix()\<close>; \<open>time_Since now sec\<close> is \<open>time.Since(time.Unix(sec, 0))\<close> at the
  instant \<open>now\<close>: a \<open>Duration\<close> is a 64-bit count of nanoseconds and the subtraction
  saturates at its bounds.
\<close>

definition Unix :: "int \<Rightarrow> int" where
  "Unix now = now div 1000000000"

definition maxDuration :: int where
  "maxDuration = 9223372036854775807"

definition minDuration :: int where
  "minDuration = - 9223372036854775808"

definition time_Since :: "int \<Rightarrow> int \<Rightarrow> int" where
  "time_Since now sec =
     (let d = now - sec * 1000000000
      in if maxDuration < d then maxDuration else if d < minDuration then minDuration else d)"

text \<open>The instants from the epoch on that a 64-bit count of nanoseconds can express.\<close>

definition clock_reading :: "int \<Rightarrow> bool" where
  "clock_reading t = (0 \<le> t \<and> t < 9223372036854775808)"

text \<open>Multiplication of \<open>int64\<close> values wraps around.\<close>

definition wrap64 :: "int \<Rightarrow> int" where
  "wrap64 x = (x + 9223372036854775808) mod 18446744073709551616 - 9223372036854775808"

definition Hour :: int where
  "Hour = 3600000000000"

subsection \<open>The embedded key-value engine (BadgerDB)\<close>

text \<open>
  The engine is an external collaborator. Its state is the set of records it holds (for
  every key the value and the \<open>ExpiresAt\<close> second the record was written with; a record
  stays there after it has expired, until it is overwritten or deleted) and the journal
  of the transactions it was asked to run. A transaction first passes the checks the
  engine makes on the key and the value (\<open>Txn.Get\<close>, \<open>Txn.modify\<close>); a read then hides a
  record whose \<open>ExpiresAt\<close> second has come, by the engine's own reading of the clock.
  Anything else that makes the engine fail a transaction (I/O failure, conflict, closed
  database, size of the batch) is an input of the model: the \<open>fault\<close> argument of each
  operation, \<open>None\<close> when the engine works.
\<close>

datatype db_error =
  ErrKeyNotFound | ErrEmptyKey | ErrInvalidKey | ErrKeyTooLarge | ErrValueTooLarge
  | ErrEngine string

datatype db_op = OpView string | OpSet string | OpDelete string

record item =
  val :: bytes
  ExpiresAt :: int

record DB =
  items :: "string \<rightharpoonup> item"
  journal :: "db_op list"

text \<open>The conversion \<open>uint64(x)\<close> of an \<open>int64\<close>.\<close>

definition uint64 :: "int \<Rightarrow> int" where
  "uint64 x = x mod 18446744073709551616"

text \<open>
  \<open>Entry.WithTTL(dur)\<close> sets \<open>ExpiresAt = uint64(time.Now().Add(dur).Unix())\<close>, and
  \<open>isDeletedOrExpired\<close> compares it with \<open>uint64(time.Now().Unix())\<close>; the value 0
  stands for a record without expiry.
\<close>

definition WithTTL :: "int \<Rightarrow> int \<Rightarrow> int" where
  "WithTTL now dur = uint64 (Unix (now + dur))"

definition isDeletedOrExpired :: "int \<Rightarrow> int \<Rightarrow> bool" where
  "isDeletedOrExpired expiresAt now =
     (if expiresAt = 0 then False else expiresAt \<le> uint64 (Unix now))"

text \<open>
  The checks of \<open>Txn.modify\<close> on an entry, with the default options the program opens
  the store with (the value log file size is \<open>1<<30 - 1\<close>).
\<close>

definition badgerPrefix :: bytes where
  "badgerPrefix = ''!badger!''"

definition maxKeySize :: nat where
  "maxKeySize = 65000"

definition ValueLogFileSize :: nat where
  "ValueLogFileSize = 1073741823"

definition HasPrefix :: "bytes \<Rightarrow> bytes \<Rightarrow> bool" where
  "HasPrefix s p = (take (length p) s = p)"

definition modify :: "string \<Rightarrow> bytes \<Rightarrow> db_error option" where
  "modify key v =
     (if length key = 0 then Some ErrEmptyKey
      else if HasPrefix key badgerPrefix then Some ErrInvalidKey
      else if maxKeySize < length key then Some ErrKeyTooLarge
      else if ValueLogFileSize < length v then Some ErrValueTooLarge
      else None)"

text \<open>\<open>db.View\<close> of \<open>txn.Get(key)\<close> and \<open>item.Value\<close>, at the engine's reading \<open>now\<close>.\<close>

definition db_view :: "DB \<Rightarrow> int \<Rightarrow> db_error option \<Rightarrow> string \<Rightarrow> (db_error + bytes) \<times> DB" where
  "db_view d now fault key =
     (if length key = 0 then Inl ErrEmptyKey
      else
        (case fault of
           Some e \<Rightarrow> Inl e
         | None \<Rightarrow>
             (case items d key of
                None \<Rightarrow> Inl ErrKeyNotFound
              | Some it \<Rightarrow>
                  if isDeletedOrExpired (ExpiresAt it) now then Inl ErrKeyNotFound
                  else Inr (val it))),
      d\<lparr>journal := journal d @ [OpView key]\<rparr>)"

text \<open>\<open>db.Update\<close> of \<open>txn.SetEntry\<close> for an entry made with \<open>WithTTL\<close>.\<close>

definition db_set_entry :: "DB \<Rightarrow> db_error option \<Rightarrow> string \<Rightarrow> bytes \<Rightarrow> int \<Rightarrow> db_error option \<times> DB" where
  "db_set_entry d fault key data expiresAt =
     (case modify key data of
        Some e \<Rightarrow> (Some e, d\<lparr>journal := journal d @ [OpSet key]\<rparr>)
      | None \<Rightarrow>
          (case fault of
             Some e \<Rightarrow> (Some e, d\<lparr>journal := journal d @ [OpSet key]\<rparr>)
           | None \<Rightarrow>
               (None, d\<lparr>items := (items d)(key \<mapsto> \<lparr>val = data, ExpiresAt = expiresAt\<rparr>),
                        journal := journal d @ [OpSet key]\<rparr>)))"

text \<open>\<open>db.Update\<close> of \<open>txn.Delete\<close>: the entry it makes has the key and no value.\<close>

definition db_delete :: "DB \<Rightarrow> db_error option \<Rightarrow> string \<Rightarrow> db_error option \<times> DB" where
  "db_delete d fault key =
     (case modify key [] of
        Some e \<Rightarrow> (Some e, d\<lparr>journal := journal d @ [OpDelete key]\<rparr>)
      | None \<Rightarrow>
          (case fault of
             Some e \<Rightarrow> (Some e, d\<lparr>journal := journal d @ [OpDelete key]\<rparr>)
           | None \<Rightarrow>
               (None, d\<lparr>items := (items d)(key := None),
                        journal := journal d @ [OpDelete key]\<rparr>)))"

section \<open>The cache store (\<open>internal/cache/cache.go\<close>)\<close>

text \<open>
  \<open>CacheManager\<close>: the \<open>db\<close> pointer may be nil; \<open>ttl\<close> is a \<open>time.Duration\<close>. Each
  operation returns its result, or panics, together with the manager as the call left it.
\<close>

record CacheManager =
  db :: "DB option"
  ttl :: int

datatype cache_error = OpenFailed db_error | SetFailed db_error | DeleteFailed db_error

text \<open>\<open>NewCacheManager\<close>: \<open>opened\<close> is what \<open>badger.Open\<close> returns for the path.\<close>

definition NewCacheManager :: "(db_error + DB) \<Rightarrow> int \<Rightarrow> cache_error + CacheManager" where
  "NewCacheManager opened ttlDays =
     (case opened of
        Inl err \<Rightarrow> Inl (OpenFailed err)
      | Inr d \<Rightarrow> Inr \<lparr>db = Some d, ttl = wrap64 (wrap64 (ttlDays * 24) * Hour)\<rparr>)"

text \<open>\<open>Close\<close>: the engine's own close result is passed on when there is a database.\<close>

definition Close :: "CacheManager \<Rightarrow> db_error option \<Rightarrow> db_error option" where
  "Close cm close_result = (case db cm of Some d \<Rightarrow> close_result | None \<Rightarrow> None)"

text \<open>\<open>GenerateKey\<close>: the receiver is not read.\<close>

definition GenerateKey :: "CacheManager \<Rightarrow> bytes \<Rightarrow> string" where
  "GenerateKey cm requestBody = EncodeToString (Sum256 requestBody)"

text \<open>\<open>Delete\<close>: an engine error other than \<open>ErrKeyNotFound\<close> is wrapped and returned.
  A nil \<open>db\<close> pointer is dereferenced by \<open>db.Update\<close>.\<close>

definition Delete :: "CacheManager \<Rightarrow> db_error option \<Rightarrow> string \<Rightarrow> cache_error option go \<times> CacheManager" where
  "Delete cm fault key =
     (case db cm of
        None \<Rightarrow> (Panic, cm)
      | Some d \<Rightarrow>
          (case db_delete d fault key of
             (err, d') \<Rightarrow>
               (case err of
                  Some e \<Rightarrow>
                    if e \<noteq> ErrKeyNotFound
                    then (Ret (Some (DeleteFailed e)), cm\<lparr>db := Some d'\<rparr>)
                    else (Ret None, cm\<lparr>db := Some d'\<rparr>)
                | None \<Rightarrow> (Ret None, cm\<lparr>db := Some d'\<rparr>))))"

text \<open>
  \<open>Get\<close>: \<open>Some entry\<close> is \<open>(entry, true)\<close>, \<open>None\<close> is \<open>(nil, false)\<close>. \<open>now\<close> is the
  engine's reading of the clock inside the read transaction, \<open>now'\<close> the reading of
  \<open>time.Since\<close> after it. Every error of the read transaction, \<open>ErrKeyNotFound\<close> or not,
  and every error of \<open>json.Unmarshal\<close> inside it ends in \<open>(nil, false)\<close>. A stored \<open>null\<close>
  leaves \<open>entry\<close> nil, and reading \<open>entry.Timestamp\<close> panics. The result of the \<open>Delete\<close>
  on the expired path is dropped.
\<close>

definition Get :: "CacheManager \<Rightarrow> string \<Rightarrow> int \<Rightarrow> int \<Rightarrow> db_error option \<Rightarrow> db_error option \<Rightarrow> CacheEntry option go \<times> CacheManager" where
  "Get cm key now now' vfault dfault =
     (case db cm of
        None \<Rightarrow> (Panic, cm)
      | Some d \<Rightarrow>
          (case db_view d now vfault key of
             (Inl err, d1) \<Rightarrow> (Ret None, cm\<lparr>db := Some d1\<rparr>)
           | (Inr v, d1) \<Rightarrow>
               (case Unmarshal_entry v of
                  Inl err \<Rightarrow> (Ret None, cm\<lparr>db := Some d1\<rparr>)
                | Inr None \<Rightarrow> (Panic, cm\<lparr>db := Some d1\<rparr>)
                | Inr (Some entry) \<Rightarrow>
                    if ttl cm < time_Since now' (Timestamp entry)
                    then (case Delete (cm\<lparr>db := Some d1\<rparr>) dfault key of
                            (Panic, cm2) \<Rightarrow> (Panic, cm2)
                          | (Ret err, cm2) \<Rightarrow> (Ret None, cm2))
                    else (Ret (Some entry), cm\<lparr>db := Some d1\<rparr>))))"

text \<open>
  \<open>Set\<close>: \<open>now\<close> is the reading of the clock for the timestamp, \<open>now'\<close> the later one of
  \<open>WithTTL\<close>. \<open>json.Marshal\<close> has no error for this struct.
\<close>

definition Set :: "CacheManager \<Rightarrow> string \<Rightarrow> bytes \<Rightarrow> bytes \<Rightarrow> int \<Rightarrow> int \<Rightarrow> int \<Rightarrow> db_error option \<Rightarrow> cache_error option go \<times> CacheManager" where
  "Set cm key requestBody responseBody statusCode now now' fault =
     (let entry = \<lparr>RequestBody = requestBody, ResponseBody = responseBody,
                    StatusCode = statusCode, Timestamp = Unix now\<rparr>;
          data = Marshal_entry entry
      in case db cm of
           None \<Rightarrow> (Panic, cm)
         | Some d \<Rightarrow>
             (case db_set_entry d fault key data (WithTTL now' (ttl cm)) of
                (Some e, d') \<Rightarrow> (Ret (Some (SetFailed e)), cm\<lparr>db := Some d'\<rparr>)
              | (None, d') \<Rightarrow> (Ret None, cm\<lparr>db := Some d'\<rparr>)))"

section \<open>The request handler (package \<open>api\<close>)\<close>

text \<open>
  A request is its method and what \<open>io.ReadAll(r.Body)\<close> gives (\<open>None\<close> for an error).
  The response is what the handler hands to the \<open>http.ResponseWriter\<close>: the header
  entries it sets, the argument of \<open>WriteHeader\<close> and the argument of \<open>Write\<close> (an
  error of \<open>Write\<close> is only logged). What the server makes of these calls on the wire is
  not part of the handler.
\<close>

record request =
  Method :: string
  Body :: "bytes option"

record response =
  header :: "(string \<times> string) list"
  status :: int
  body :: bytes

definition Header_Set :: "string \<Rightarrow> string \<Rightarrow> (string \<times> string) list \<Rightarrow> (string \<times> string) list" where
  "Header_Set k v h = (k, v) # filter (\<lambda>kv. fst kv \<noteq> k) h"

text \<open>
  What the upstream API does with a forwarded body: the transport fails, the response
  arrives but its body cannot be read, or status, headers and body arrive.
\<close>

datatype upstream_reply =
  DoFailed
  | ReadFailed int "(string \<times> string) list"
  | Responded int "(string \<times> string) list" bytes

datatype forward_error = SendError | ReadError

text \<open>
  The environment of one request: the upstream API, the readings of the clock in the
  order the code may take them (the engine's in the read transaction, \<open>time.Since\<close> in
  \<open>Get\<close>, \<open>time.Now\<close> in \<open>Set\<close>, \<open>WithTTL\<close>) and the engine's fault for each of the three
  transactions.
\<close>

record env =
  upstream :: "bytes \<Rightarrow> upstream_reply"
  clock_view :: int
  clock_get :: int
  clock_set :: int
  clock_ttl :: int
  view_fault :: "db_error option"
  delete_fault :: "db_error option"
  set_fault :: "db_error option"

text \<open>\<open>forwardRawRequestToTushareAPI\<close>: the response headers are not part of the result.
  \<open>http.NewRequest\<close> has no error for the fixed method and URL.\<close>

definition forwardRawRequestToTushareAPI :: "(bytes \<Rightarrow> upstream_reply) \<Rightarrow> bytes \<Rightarrow> bytes \<times> int \<times> forward_error option" where
  "forwardRawRequestToTushareAPI up b =
     (case up b of
        DoFailed \<Rightarrow> ([], 0, Some SendError)
      | ReadFailed st hs \<Rightarrow> ([], st, Some ReadError)
      | Responded st hs respBody \<Rightarrow> (respBody, st, None))"

definition sendErrorResponse :: "(string \<times> string) list \<Rightarrow> bytes \<Rightarrow> int \<Rightarrow> response" where
  "sendErrorResponse h message statusCode =
     \<lparr>header = h, status = 200, body = Marshal_result \<lparr>Code = statusCode, Msg = message\<rparr>\<rparr>"

text \<open>The three messages, as the UTF-8 bytes of the source file.\<close>

definition msg_method :: bytes where
  "msg_method =
     [CHR 0xE5, CHR 0x8F, CHR 0xAA, CHR 0xE6, CHR 0x94, CHR 0xAF, CHR 0xE6, CHR 0x8C, CHR 0x81,
      CHR ''P'', CHR ''O'', CHR ''S'', CHR ''T'', CHR 0xE6, CHR 0x96, CHR 0xB9, CHR 0xE6, CHR 0xB3, CHR 0x95]"

definition msg_read :: bytes where
  "msg_read =
     [CHR 0xE8, CHR 0xAF, CHR 0xBB, CHR 0xE5, CHR 0x8F, CHR 0x96, CHR 0xE8, CHR 0xAF, CHR 0xB7,
      CHR 0xE6, CHR 0xB1, CHR 0x82, CHR 0xE4, CHR 0xBD, CHR 0x93, CHR 0xE5, CHR 0xA4, CHR 0xB1,
      CHR 0xE8, CHR 0xB4, CHR 0xA5]"

definition msg_forward :: bytes where
  "msg_forward =
     [CHR 0xE8, CHR 0xAF, CHR 0xB7, CHR 0xE6, CHR 0xB1, CHR 0x82, CHR ''t'', CHR ''u'', CHR ''s'',
      CHR ''h'', CHR ''a'', CHR ''r'', CHR ''e'', CHR '' '', CHR ''A'', CHR ''P'', CHR ''I'',
      CHR 0xE5, CHR 0xA4, CHR 0xB1, CHR 0xE8, CHR 0xB4, CHR 0xA5]"

text \<open>
  The outcome of one call of the handler: the response, or the panic that ended the
  call before one was written; the global \<open>cacheManager\<close> afterwards (the pointer is the
  same, the store behind it may have changed); the bodies sent upstream; and the
  \<open>from_cache\<close> and \<open>cache_key\<close> fields of the closing log line (\<open>None\<close> when the call
  ended before it).
\<close>

record outcome =
  resp :: "response go"
  manager :: "CacheManager option"
  forwarded :: "bytes list"
  done_log :: "(bool \<times> string) option"

definition shouldCache :: "int \<Rightarrow> bytes \<Rightarrow> bool" where
  "shouldCache statusCode resp_body =
     (if statusCode = 200 \<and> 0 < length resp_body then
        (case Unmarshal_result resp_body of
           Inr result \<Rightarrow> Code result = 0
         | Inl err \<Rightarrow> False)
      else False)"

text \<open>
  The end of the handler: \<open>w.WriteHeader(statusCode)\<close>, \<open>w.Write(response)\<close> and the
  closing log line. \<open>WriteHeader\<close> panics (\<open>checkWriteHeaderCode\<close>) for a code below 100
  or above 999, before anything is written.
\<close>

definition write_response :: "(string \<times> string) list \<Rightarrow> int \<Rightarrow> bytes \<Rightarrow> CacheManager option \<Rightarrow> bytes list \<Rightarrow> bool \<times> string \<Rightarrow> outcome" where
  "write_response h statusCode response cm sent logged =
     (if statusCode < 100 \<or> 999 < statusCode
      then \<lparr>resp = Panic, manager = cm, forwarded = sent, done_log = None\<rparr>
      else \<lparr>resp = Ret \<lparr>header = h, status = statusCode, body = response\<rparr>, manager = cm,
             forwarded = sent, done_log = Some logged\<rparr>)"

definition DataAPIHandler :: "env \<Rightarrow> CacheManager option \<Rightarrow> request \<Rightarrow> outcome" where
  "DataAPIHandler e cacheManager r =
     (let h = Header_Set ''Content-Type'' ''application/json'' [] in
      if Method r \<noteq> ''POST'' then
        \<lparr>resp = Ret (sendErrorResponse h msg_method 405), manager = cacheManager,
         forwarded = [], done_log = None\<rparr>
      else
        (case Body r of
           None \<Rightarrow>
             \<lparr>resp = Ret (sendErrorResponse h msg_read 400), manager = cacheManager,
              forwarded = [], done_log = None\<rparr>
         | Some b \<Rightarrow>
             (case (case cacheManager of
                      None \<Rightarrow> ([], Ret None, None)
                    | Some cm \<Rightarrow>
                        (case Get cm (GenerateKey cm b) (clock_view e) (clock_get e)
                                (view_fault e) (delete_fault e) of
                           (found, cm1) \<Rightarrow> (GenerateKey cm b, found, Some cm1))) of
                (cacheKey, Panic, cm1) \<Rightarrow>
                  \<lparr>resp = Panic, manager = cm1, forwarded = [], done_log = None\<rparr>
              | (cacheKey, Ret (Some entry), cm1) \<Rightarrow>
                  write_response h (StatusCode entry) (ResponseBody entry) cm1 [] (True, cacheKey)
              | (cacheKey, Ret None, cm1) \<Rightarrow>
                  (case forwardRawRequestToTushareAPI (upstream e) b of
                     (response, statusCode, Some err) \<Rightarrow>
                       \<lparr>resp = Ret (sendErrorResponse h msg_forward 500), manager = cm1,
                        forwarded = [b], done_log = None\<rparr>
                   | (response, statusCode, None) \<Rightarrow>
                       (case (case cm1 of
                                Some cm \<Rightarrow>
                                  if shouldCache statusCode response then
                                    (case Set cm cacheKey b response statusCode (clock_set e)
                                            (clock_ttl e) (set_fault e) of
                                       (err, cm2) \<Rightarrow> (err, Some cm2))
                                  else (Ret None, cm1)
                              | None \<Rightarrow> (Ret None, cm1)) of
                          (Panic, cm2) \<Rightarrow>
                            \<lparr>resp = Panic, manager = cm2, forwarded = [b], done_log = None\<rparr>
                        | (Ret err, cm2) \<Rightarrow>
                            write_response h statusCode response cm2 [b] (False, cacheKey))))))"

section \<open>Start-up (\<open>main\<close>) and serving\<close>

record CacheConfig =
  Enabled :: bool
  DBPath :: string
  TTLDays :: int

text \<open>
  The cache part of \<open>main\<close>: the global \<open>cacheManager\<close> after start-up, or the fatal
  error. \<open>open_db\<close> is \<open>badger.Open\<close>; it is not called when caching is disabled.
\<close>

definition init_cache :: "CacheConfig \<Rightarrow> (string \<Rightarrow> db_error + DB) \<Rightarrow> cache_error + CacheManager option" where
  "init_cache cfg open_db =
     (if Enabled cfg then
        (case NewCacheManager (open_db (DBPath cfg)) (TTLDays cfg) of
           Inl err \<Rightarrow> Inl err
         | Inr cm \<Rightarrow> Inr (Some cm))
      else Inr None)"

text \<open>
  Requests served one after the other, each in its own environment, on the global
  \<open>cacheManager\<close> the previous one left. A panic of the handler is recovered by the
  HTTP server, which goes on serving.
\<close>

fun serve :: "CacheManager option \<Rightarrow> (env \<times> request) list \<Rightarrow> outcome list" where
  "serve cm [] = []"
| "serve cm ((e, r) # rs) = DataAPIHandler e cm r # serve (manager (DataAPIHandler e cm r)) rs"

section \<open>Notions the properties are stated with\<close>

text \<open>The success range of HTTP status codes (2xx), in the words of the specification.\<close>

definition success_range :: "int \<Rightarrow> bool" where
  "success_range s = (200 \<le> s \<and> s < 300)"

text \<open>An upstream that answers like \<open>up\<close> but without response headers.\<close>

definition drop_headers :: "(bytes \<Rightarrow> upstream_reply) \<Rightarrow> bytes \<Rightarrow> upstream_reply" where
  "drop_headers up b =
     (case up b of
        DoFailed \<Rightarrow> DoFailed
      | ReadFailed st hs \<Rightarrow> ReadFailed st []
      | Responded st hs respBody \<Rightarrow> Responded st [] respBody)"

text \<open>
  A decoded JSON value without a member for the field \<open>code\<close>, and an object whose
  members for the field \<open>msg\<close> are all strings or \<open>null\<close>; members are matched to fields
  as \<open>json.Unmarshal\<close> does it, without regard to case.
\<close>

definition lacks_code :: "json \<Rightarrow> bool" where
  "lacks_code v =
     (case v of
        JObj ms \<Rightarrow> list_all (\<lambda>m. \<not> key_matches ''code'' (fst m)) ms
      | _ \<Rightarrow> True)"

definition msg_members_fit :: "json \<Rightarrow> bool" where
  "msg_members_fit v =
     (case v of
        JObj ms \<Rightarrow>
          list_all (\<lambda>m. \<not> key_matches ''msg'' (fst m)
                          \<or> (case snd m of JNull \<Rightarrow> True | JStr s \<Rightarrow> True | _ \<Rightarrow> False)) ms
      | _ \<Rightarrow> False)"

section \<open>Example inputs\<close>

text \<open>
  A manager on an empty store with a TTL of one day, an upstream that answers every body
  with the given status and body (and a header of its own), and a POST of \<open>{}\<close>.
\<close>

definition ex_cm :: CacheManager where
  "ex_cm = \<lparr>db = Some \<lparr>items = Map.empty, journal = []\<rparr>, ttl = 86400000000000\<rparr>"

definition ex_env :: "int \<Rightarrow> bytes \<Rightarrow> env" where
  "ex_env s R =
     \<lparr>upstream = (\<lambda>b. Responded s [(''Server'', ''upstream'')] R),
      clock_view = 1700000000000000000, clock_get = 1700000000000000000,
      clock_set = 1700000000000000000, clock_ttl = 1700000000000000000,
      view_fault = None, delete_fault = None, set_fault = None\<rparr>"

definition ex_req :: request where
  "ex_req = \<lparr>Method = ''POST'', Body = Some ''{}''\<rparr>"

definition ex_ok :: bytes where
  \<open>ex_ok = ''{"code":0}''\<close>

definition ex_msg1 :: bytes where
  \<open>ex_msg1 = ''{"msg":1}''\<close>

text \<open>The entry \<open>Set\<close> writes for that exchange at second 1700000000, and the manager
  holding it under the key \<open>k\<close>, to expire one day later.\<close>

definition ex_entry :: CacheEntry where
  "ex_entry = \<lparr>RequestBody = ''{}'', ResponseBody = ex_ok, StatusCode = 200, Timestamp = 1700000000\<rparr>"


section \<open>Properties\<close>

subsection \<open>The codec of cache entries\<close>

lemma run_None [simp]: "run None xs = None"
  by (induction xs) simp_all

lemma run_append: "run s (a @ b) = run (run s a) b"
  by (induction a arbitrary: s) simp_all


lemma run_plain:
  "list_all plain xs \<Longrightarrow> run (Some (MStr k SPlain raw, st)) xs = Some (MStr k SPlain (rev xs @ raw), st)"
  by (induction xs arbitrary: raw) (simp_all add: plain_def)

lemma unquote_plain: "list_all plain xs \<Longrightarrow> unquote xs = map of_char xs"
  by (induction xs) (simp_all add: plain_def)

lemma AppendRune_ascii: "(of_char c :: nat) < 128 \<Longrightarrow> AppendRune (of_char c) = [c]"
  by (simp add: AppendRune_def)

lemma utf8_plain: "list_all plain xs \<Longrightarrow> utf8 (map of_char xs) = xs"
  by (induction xs) (simp_all add: utf8_def plain_def AppendRune_ascii)

lemma b64val_table: "list_all (\<lambda>i. b64val (b64table ! i) = Some i) [0..<64]"
  by (simp add: upt_rec b64table_def b64val_def Let_def)

lemma b64val_nth: "i < 64 \<Longrightarrow> b64val (b64table ! i) = Some i"
  using b64val_table by (simp add: list_all_iff)

lemma b64_not_crlf: "i < 64 \<Longrightarrow> b64table ! i \<noteq> CHR 0x0D \<and> b64table ! i \<noteq> CHR 0x0A \<and> b64table ! i \<noteq> CHR ''=''"
  using b64val_nth [of i] by (auto simp: b64val_def)

lemma b64_plain: "i < 64 \<Longrightarrow> plain (b64table ! i)"
  using b64val_nth [of i] by (auto simp: b64val_def plain_def Let_def split: if_splits)

lemma sextets:
  "(of_char a :: nat) div 4 < 64"
  "(of_char a :: nat) mod 4 * 16 < 64"
  "(of_char a :: nat) mod 4 * 16 + of_char b div 16 < 64"
  "(of_char b :: nat) mod 16 * 4 < 64"
  "(of_char b :: nat) mod 16 * 4 + of_char c div 64 < 64"
  "(of_char c :: nat) mod 64 < 64"
  using nat_of_char_less_256 [of a] nat_of_char_less_256 [of b] nat_of_char_less_256 [of c]
  by arith+

lemma b64enc_plain: "list_all plain (b64enc bs)"
  by (induction bs rule: b64enc.induct) (simp_all add: b64_plain sextets, simp_all add: plain_def)

lemma b64enc_no_crlf: "filter (\<lambda>c. c \<noteq> CHR 0x0D \<and> c \<noteq> CHR 0x0A) (b64enc bs) = b64enc bs"
  by (induction bs rule: b64enc.induct) (simp_all add: b64_not_crlf sextets)


lemma divmod_pack: "r < k \<Longrightarrow> (m * k + r) div k = m \<and> (m * k + r) mod k = (r::nat)"
  by simp

lemma nibbles_of_char:
  "(of_char b :: nat) div 16 < 16" "(of_char c :: nat) div 64 < 4"
  using nat_of_char_less_256 [of b] nat_of_char_less_256 [of c] by arith+

lemma quantum4_enc:
  "quantum4 (b64table ! (of_char a div 4)) (b64table ! ((of_char a mod 4) * 16 + of_char b div 16))
      (b64table ! ((of_char b mod 16) * 4 + of_char c div 64)) (b64table ! (of_char c mod 64))
   = Some [a, b, c]"
proof -
  have a: "(of_char a :: nat) div 4 * 4 + (of_char a mod 4 * 16 + of_char b div 16) div 16 = of_char a"
    using divmod_pack [OF nibbles_of_char(1) [of b], where m = "of_char a mod 4"] by simp
  have b: "((of_char a :: nat) mod 4 * 16 + of_char b div 16) mod 16 * 16
             + (of_char b mod 16 * 4 + of_char c div 64) div 4 = of_char b"
    using divmod_pack [OF nibbles_of_char(1) [of b], where m = "of_char a mod 4"]
      divmod_pack [OF nibbles_of_char(2) [of c], where m = "of_char b mod 16"] by simp
  have c: "((of_char b :: nat) mod 16 * 4 + of_char c div 64) mod 4 * 64 + of_char c mod 64 = of_char c"
    using divmod_pack [OF nibbles_of_char(2) [of c], where m = "of_char b mod 16"] by simp
  show ?thesis
    by (simp only: quantum4_def b64val_nth sextets a b c prod.case option.case char_of_char)
qed

lemma quantum3_enc:
  "quantum3 (b64table ! (of_char a div 4)) (b64table ! ((of_char a mod 4) * 16 + of_char b div 16))
      (b64table ! ((of_char b mod 16) * 4)) = Some [a, b]"
proof -
  have a: "(of_char a :: nat) div 4 * 4 + (of_char a mod 4 * 16 + of_char b div 16) div 16 = of_char a"
    using divmod_pack [OF nibbles_of_char(1) [of b], where m = "of_char a mod 4"] by simp
  have b: "((of_char a :: nat) mod 4 * 16 + of_char b div 16) mod 16 * 16
             + (of_char b mod 16 * 4) div 4 = of_char b"
    using divmod_pack [OF nibbles_of_char(1) [of b], where m = "of_char a mod 4"] by simp
  show ?thesis
    by (simp only: quantum3_def b64val_nth sextets a b prod.case option.case char_of_char)
qed

lemma quantum2_enc:
  "quantum2 (b64table ! (of_char a div 4)) (b64table ! ((of_char a mod 4) * 16)) = Some [a]"
proof -
  have a: "(of_char a :: nat) div 4 * 4 + (of_char a mod 4 * 16) div 16 = of_char a"
    by simp
  show ?thesis
    by (simp only: quantum2_def b64val_nth sextets a prod.case option.case char_of_char)
qed

lemma b64dec_enc: "b64dec (b64enc bs) = Some bs"
proof (induction bs rule: b64enc.induct)
  case 1
  then show ?case by simp
next
  case (2 a)
  then show ?case by (simp add: quantum2_enc)
next
  case (3 a b)
  then show ?case by (simp add: quantum3_enc b64_not_crlf sextets)
next
  case (4 a b c r)
  show ?case
  proof (cases "b64enc r")
    case Nil
    then have "r = []" by (cases r rule: b64enc.cases) simp_all
    then show ?thesis by (simp add: quantum4_enc b64_not_crlf sextets)
  next
    case (Cons x xs)
    with 4 show ?thesis by (simp add: quantum4_enc)
  qed
qed

lemma base64_roundtrip: "base64_Decode (b64enc bs) = Some bs"
  by (simp add: base64_Decode_def b64enc_no_crlf b64dec_enc)


lemma digit_cases: "n < 10 \<Longrightarrow> n \<in> {0, 1, 2, 3, 4, 5, 6, 7, 8, 9 :: nat}"
  by auto

lemma digit_char: "n < 10 \<Longrightarrow> is_digit (digit_char n) \<and> (of_char (digit_char n) :: nat) = 48 + n"
  by (drule digit_cases) (elim insertE emptyE; simp add: is_digit_def digit_char_def)

lemma digits_all: "list_all is_digit (digits n)"
proof (induction n rule: digits.induct)
  case (1 n)
  show ?case
  proof (cases "n < 10")
    case True
    then show ?thesis by (simp add: digits.simps [of n] digit_char)
  next
    case False
    with 1 show ?thesis by (simp add: digits.simps [of n] digit_char)
  qed
qed

lemma digits_nonempty: "digits n \<noteq> []"
  by (simp add: digits.simps [of n])

lemma digits_val_snoc: "digits_val (xs @ [c]) = digits_val xs * 10 + (of_char c - 48)"
  by (simp add: digits_val_def)

lemma digits_val_digits: "digits_val (digits n) = n"
proof (induction n rule: digits.induct)
  case (1 n)
  show ?case
  proof (cases "n < 10")
    case True
    then show ?thesis by (simp add: digits.simps [of n] digits_val_def digit_char)
  next
    case False
    with 1 show ?thesis by (simp add: digits.simps [of n] digits_val_snoc digit_char)
  qed
qed

lemma begin_digit:
  "0 < n \<Longrightarrow> n < 10 \<Longrightarrow> step (digit_char n) (MValue, st) = Some (MNum NInt [digit_char n], st)"
  by (drule digit_cases) (elim insertE emptyE; simp add: begin_value_def is_digit19_def is_space_def digit_char_def)

lemma neg_digit:
  "0 < n \<Longrightarrow> n < 10 \<Longrightarrow> step (digit_char n) (MNum NNeg raw, st) = Some (MNum NInt (digit_char n # raw), st)"
  by (drule digit_cases) (elim insertE emptyE; simp add: is_digit19_def digit_char_def)

lemma scan_digits_pos:
  "0 < n \<Longrightarrow> run (Some (MValue, st)) (digits n) = Some (MNum NInt (rev (digits n)), st)
     \<and> run (Some (MNum NNeg raw, st)) (digits n) = Some (MNum NInt (rev (digits n) @ raw), st)"
proof (induction n rule: digits.induct)
  case (1 n)
  show ?case
  proof (cases "n < 10")
    case True
    with 1 show ?thesis
      by (simp add: digits.simps [of n] begin_digit neg_digit del: step.simps)
  next
    case False
    then have "0 < n div 10" by simp
    with 1 False show ?thesis
      by (simp add: digits.simps [of n] run_append digit_char)
  qed
qed

lemma scan_itoa:
  "run (Some (MValue, st)) (itoa i) = Some (MNum (if i = 0 then NZero else NInt) (rev (itoa i)), st)"
proof -
  consider "i < 0" | "i = 0" | "0 < i" by linarith
  then show ?thesis
  proof cases
    case 1
    then have "0 < nat (- i)" by simp
    from scan_digits_pos [OF this] 1 show ?thesis
      by (simp add: itoa_def begin_value_def is_space_def)
  next
    case 2
    then show ?thesis
      by (simp add: itoa_def digits.simps [of 0] begin_value_def is_space_def digit_char_def)
  next
    case 3
    then have "0 < nat i" by simp
    from scan_digits_pos [OF this] 3 show ?thesis
      by (simp add: itoa_def)
  qed
qed

lemma digit_not_sign: "is_digit c \<Longrightarrow> c \<noteq> CHR ''-'' \<and> c \<noteq> CHR ''+''"
  by (auto simp: is_digit_def)

lemma ParseInt_itoa:
  assumes "int64 i"
  shows "ParseInt (itoa i) = Some i"
proof (cases "i < 0")
  case True
  with assms show ?thesis
    by (simp add: int64_def itoa_def ParseInt_def digits_all digits_nonempty digits_val_digits)
next
  case False
  obtain c ds where d: "digits (nat i) = c # ds"
    using digits_nonempty [of "nat i"] by (cases "digits (nat i)") auto
  have all: "list_all is_digit (c # ds)" and v: "digits_val (c # ds) = nat i"
    using digits_all [of "nat i"] digits_val_digits [of "nat i"] d by simp_all
  then have "is_digit c" by simp
  then have "c \<noteq> CHR ''-''" "c \<noteq> CHR ''+''" by (simp_all add: digit_not_sign)
  with False assms all v d show ?thesis
    by (simp add: int64_def itoa_def ParseInt_def)
qed

lemma num_delim:
  "c = CHR '','' \<or> c = CHR ''}'' \<Longrightarrow>
   step c (MNum (if b then NZero else NInt) raw, st) = num_end c raw st"
  by (auto simp: is_digit_def is_exp_def)

lemma parse_Marshal_entry:
  "parse_json (Marshal_entry e) =
     Some (JObj [(map of_char ''request_body'', JStr (map of_char (b64enc (RequestBody e)))),
                 (map of_char ''response_body'', JStr (map of_char (b64enc (ResponseBody e)))),
                 (map of_char ''status_code'', JNum (itoa (StatusCode e))),
                 (map of_char ''timestamp'', JNum (itoa (Timestamp e)))])"
  by (simp add: parse_json_def Marshal_entry_def run_append run_plain b64enc_plain unquote_plain
        scan_itoa num_delim num_end_def str_end_def is_space_def begin_value_def push_frame_def
        maxNestingDepth_def
      del: step.simps(9))

lemma Unmarshal_Marshal_entry:
  assumes "int64 (StatusCode e)" and "int64 (Timestamp e)"
  shows "Unmarshal_entry (Marshal_entry e) = Inr (Some e)"
  using assms
  by (simp add: Unmarshal_entry_def parse_Marshal_entry entry_field_def key_matches_def
        foldRune_def store_bytes_def store_int_def utf8_plain b64enc_plain base64_roundtrip
        ParseInt_itoa)

subsection \<open>Fingerprint\<close>

lemma replicate_num: "replicate (numeral k) x = x # replicate (pred_numeral k) x"
  by (simp add: numeral_eq_Suc)

lemmas sha256_eval =
  replicate_num rotr32_def add32_def not32_def be32_def padding_def pad_len_def schedule_step_def
  ssig0_def ssig1_def T1_def T2_def rotate_vars_def be64_bytes_def be32_bytes_def block_def
  K256_def init_digest_def Sum256_def EncodeToString_def hextable_def blocks.simps

text \<open>
  The model on the published examples of SHA-256: the empty message, the one-block
  message \<open>abc\<close> and the two-block message of 56 bytes (FIPS 180-4 and its example
  computations); and on two request bodies that differ by one space.
\<close>

lemma Sum256_empty:
  "EncodeToString (Sum256 []) = ''e3b0c44298fc1c149afbf4c8996fb92427ae41e4649b934ca495991b7852b855''"
  by (simp add: sha256_eval)

lemma Sum256_abc:
  "EncodeToString (Sum256 ''abc'') = ''ba7816bf8f01cfea414140de5dae2223b00361a396177a9cb410ff61f20015ad''"
  by (simp add: sha256_eval)

lemma Sum256_two_blocks:
  "EncodeToString (Sum256 ''abcdbcdecdefdefgefghfghighijhijkijkljklmklmnlmnomnopnopq'')
     = ''248d6a61d20638b8e5c026930c3e6039a33ce45964ff2167f6ecedd419db06c1''"
  by (simp add: sha256_eval)

lemma Sum256_body:
  \<open>EncodeToString (Sum256 ''{"a":1}'') = ''015abd7f5cc57a2dd94b7590f04ad8084273905ee33ec5cebeae62276a97f862''\<close>
  by (simp add: sha256_eval)

lemma Sum256_body_spaced:
  \<open>EncodeToString (Sum256 ''{"a": 1}'') = ''f9d86028c6e0d64e225186f96acb69338b2c59764df79162107f5c4bb34d1310''\<close>
  by (simp add: sha256_eval)

lemma length_digest_bytes: "length (digest_bytes dig) = 32"
  by (cases dig rule: digest_bytes.cases) (simp add: be32_bytes_def)

lemma length_Sum256: "length (Sum256 p) = 32"
  by (simp add: Sum256_def length_digest_bytes)

lemma length_EncodeToString: "length (EncodeToString src) = 2 * length src"
  by (induction src) (simp_all add: EncodeToString_def)

lemma hextable_nth_mem: "i < 16 \<Longrightarrow> hextable ! i \<in> set hextable"
  by (rule nth_mem) (simp add: hextable_def)

lemma nibble_bounds: "(of_char v :: nat) div 16 < 16" "(of_char v :: nat) mod 16 < 16"
  using nat_of_char_less_256 [of v] by arith+

lemma set_EncodeToString: "set (EncodeToString src) \<subseteq> set hextable"
proof (induction src)
  case Nil
  then show ?case by (simp add: EncodeToString_def)
next
  case (Cons v src)
  have "hextable ! (of_char v div 16) \<in> set hextable" "hextable ! (of_char v mod 16) \<in> set hextable"
    by (simp_all add: hextable_nth_mem nibble_bounds)
  with Cons show ?case by (simp add: EncodeToString_def)
qed

lemma hextable_inj: "i < 16 \<Longrightarrow> j < 16 \<Longrightarrow> hextable ! i = hextable ! j \<Longrightarrow> i = j"
proof -
  assume "i < 16" "j < 16" "hextable ! i = hextable ! j"
  moreover have "distinct hextable" "length hextable = 16"
    by (simp_all add: hextable_def)
  ultimately show "i = j"
    by (simp add: nth_eq_iff_index_eq)
qed

lemma EncodeToString_inj: "EncodeToString a = EncodeToString b \<Longrightarrow> a = b"
proof (induction a arbitrary: b)
  case Nil
  then show ?case by (cases b) (simp_all add: EncodeToString_def)
next
  case (Cons x a)
  then obtain y b' where b: "b = y # b'"
    by (cases b) (simp_all add: EncodeToString_def)
  from Cons.prems b have hd: "hextable ! (of_char x div 16) = hextable ! (of_char y div 16)"
      "hextable ! (of_char x mod 16) = hextable ! (of_char y mod 16)"
    and tl: "EncodeToString a = EncodeToString b'"
    by (simp_all add: EncodeToString_def)
  have "(of_char x :: nat) div 16 = of_char y div 16"
    by (rule hextable_inj [OF nibble_bounds(1) nibble_bounds(1) hd(1)])
  moreover have "(of_char x :: nat) mod 16 = of_char y mod 16"
    by (rule hextable_inj [OF nibble_bounds(2) nibble_bounds(2) hd(2)])
  ultimately have "(of_char x :: nat) = of_char y"
    by (metis div_mult_mod_eq)
  then have "x = y" by simp
  with Cons.IH [OF tl] b show ?case by simp
qed

lemma hex_digit_value_table: "list_all (\<lambda>i. hex_digit_value (hextable ! i) = i) [0..<16]"
  by (simp add: upt_rec hextable_def hex_digit_value_def)

lemma hex_digit_value_nth: "i < 16 \<Longrightarrow> hex_digit_value (hextable ! i) = i"
  using hex_digit_value_table by (simp add: list_all_iff)

lemma hex_value_append:
  "foldl (\<lambda>a c. a * 16 + hex_digit_value c) a0 (EncodeToString bs)
     = foldl (\<lambda>a b. a * 256 + of_char b) a0 bs"
proof (induction bs arbitrary: a0)
  case Nil
  then show ?case by (simp add: EncodeToString_def)
next
  case (Cons b bs)
  have e: "EncodeToString (b # bs)
             = hextable ! (of_char b div 16) # hextable ! (of_char b mod 16) # EncodeToString bs"
    by (simp add: EncodeToString_def)
  have k: "(a0 * 16 + of_char b div 16) * 16 + of_char b mod 16 = a0 * 256 + (of_char b :: nat)"
    by (simp add: algebra_simps)
  have "foldl (\<lambda>a c. a * 16 + hex_digit_value c) a0 (EncodeToString (b # bs))
          = foldl (\<lambda>a c. a * 16 + hex_digit_value c)
              ((a0 * 16 + of_char b div 16) * 16 + of_char b mod 16) (EncodeToString bs)"
    by (simp only: e foldl_Cons hex_digit_value_nth nibble_bounds)
  also have "\<dots> = foldl (\<lambda>a b. a * 256 + of_char b) (a0 * 256 + of_char b) bs"
    by (simp only: k Cons.IH)
  finally show ?case by simp
qed

lemma hex_value_EncodeToString: "hex_value (EncodeToString bs) = be_value bs"
  by (simp add: hex_value_def be_value_def hex_value_append)

lemma be_value_bound: "be_value bs < 256 ^ length bs"
proof (induction bs rule: rev_induct)
  case Nil
  then show ?case by (simp add: be_value_def)
next
  case (snoc b bs)
  have v: "be_value (bs @ [b]) = be_value bs * 256 + of_char b"
    by (simp add: be_value_def)
  have b: "(of_char b :: nat) < 256" by (rule nat_of_char_less_256)
  from snoc have "be_value bs + 1 \<le> 256 ^ length bs" by simp
  then have "(be_value bs + 1) * 256 \<le> 256 ^ length bs * 256" by (rule mult_le_mono1)
  then have "be_value bs * 256 + 256 \<le> 256 ^ length (bs @ [b])" by (simp add: algebra_simps)
  with v b show ?case by linarith
qed

text \<open>The message that is hashed is the payload itself followed by a padding that
  depends on its length only; the payload can be read back from it.\<close>

lemma be_value_be64_bytes: "be_value (be64_bytes n) = n mod 18446744073709551616"
proof -
  have c: "\<And>k. (of_char (char_of (k :: nat)) :: nat) = k mod 256" by simp
  have s: "\<And>a m. 0 < m \<Longrightarrow> m * (n div m mod 256) + n mod m = n mod (m * 256)"
    by (simp add: mod_mult2_eq)
  have "be_value (be64_bytes n) =
      72057594037927936 * (n div 72057594037927936 mod 256)
      + (281474976710656 * (n div 281474976710656 mod 256)
      + (1099511627776 * (n div 1099511627776 mod 256)
      + (4294967296 * (n div 4294967296 mod 256)
      + (16777216 * (n div 16777216 mod 256)
      + (65536 * (n div 65536 mod 256)
      + (256 * (n div 256 mod 256)
      + n mod 256))))))"
    by (simp add: be_value_def be64_bytes_def c)
  also have "\<dots> = n mod 18446744073709551616"
    using s [of 256] s [of 65536] s [of 16777216] s [of 4294967296] s [of 1099511627776]
      s [of 281474976710656] s [of 72057594037927936]
    by simp
  finally show ?thesis .
qed

lemma pad_len_bounds: "0 < pad_len n" "pad_len n \<le> 64"
  using mod_less_divisor [of 64 n] by (simp_all add: pad_len_def) arith+

lemma padding_split:
  "padding n = (CHR 0x80 # replicate (pad_len n - 1) (CHR 0x00))
                 @ be64_bytes ((n * 8) mod 18446744073709551616)"
  by (simp add: padding_def)

lemma length_padding: "length (padding n) = pad_len n + 8"
  using pad_len_bounds(1) [of n] by (simp add: padding_split be64_bytes_def)

lemma padding_tail: "drop (pad_len n) (padding n) = be64_bytes ((n * 8) mod 18446744073709551616)"
proof -
  have "length (CHR 0x80 # replicate (pad_len n - 1) (CHR 0x00)) = pad_len n"
    using pad_len_bounds(1) [of n] by simp
  then show ?thesis
    by (simp only: padding_split drop_append) simp
qed

lemma padded_inj:
  assumes "P @ padding (length P) = Q @ padding (length Q)"
  shows "P = Q"
proof -
  let ?p = "length P" and ?q = "length Q"
  from assms have "length (P @ padding ?p) = length (Q @ padding ?q)" by simp
  then have len: "?p + pad_len ?p = ?q + pad_len ?q"
    by (simp add: length_padding)
  from assms have "drop (?p + pad_len ?p) (P @ padding ?p) = drop (?q + pad_len ?q) (Q @ padding ?q)"
    using len by simp
  then have "be64_bytes ((?p * 8) mod 18446744073709551616) = be64_bytes ((?q * 8) mod 18446744073709551616)"
    by (simp add: padding_tail)
  then have "be_value (be64_bytes ((?p * 8) mod 18446744073709551616))
               = be_value (be64_bytes ((?q * 8) mod 18446744073709551616))"
    by simp
  then have m: "(?p * 8) mod 18446744073709551616 = (?q * 8) mod 18446744073709551616"
    by (simp add: be_value_be64_bytes)
  have w: "pad_len ?p \<le> 64" "pad_len ?q \<le> 64" "0 < pad_len ?p" "0 < pad_len ?q"
    by (simp_all add: pad_len_bounds)
  have "?p = ?q"
  proof (rule ccontr)
    assume ne: "?p \<noteq> ?q"
    show False
    proof (cases "?p < ?q")
      case True
      with len w have d: "?q - ?p < 64" by arith
      from m True have "(?q * 8 - ?p * 8) mod 18446744073709551616 = 0"
        by (metis mod_eq_dvd_iff_nat dvd_imp_mod_0 mult_le_mono1 less_imp_le)
      moreover from d True have "?q * 8 - ?p * 8 < 18446744073709551616" "0 < ?q * 8 - ?p * 8"
        by arith+
      ultimately show False by simp
    next
      case False
      with ne have lt: "?q < ?p" by simp
      with len w have d: "?p - ?q < 64" by arith
      from m lt have "(?p * 8 - ?q * 8) mod 18446744073709551616 = 0"
        by (metis mod_eq_dvd_iff_nat dvd_imp_mod_0 mult_le_mono1 less_imp_le)
      moreover from d lt have "?p * 8 - ?q * 8 < 18446744073709551616" "0 < ?p * 8 - ?q * 8"
        by arith+
      ultimately show False by simp
    qed
  qed
  with assms show ?thesis by simp
qed

text \<open>
  C5: the key is a function of the payload bytes alone (the manager, its store and its
  TTL are not read). It is the SHA-256 digest of exactly those bytes, 32 bytes written
  as 64 characters of \<open>0123456789abcdef\<close> (read as a hexadecimal numeral the key is the
  digest, a number below \<open>2 ^ 256\<close>): on the published examples of SHA-256 (the empty
  message, \<open>abc\<close>, the two-block message) the key is the published digest. Nothing is
  normalised: the message that is hashed is the payload followed by a padding fixed by
  its length, so that two payloads are hashed as the same message only if they are the
  same bytes; two payloads get the same key exactly when their digests coincide, and the
  bodies \<open>{"a":1}\<close> and \<open>{"a": 1}\<close>, which differ by one space, get different keys.
\<close>

theorem GenerateKey_sha256_hex:
  \<open>GenerateKey cm P = GenerateKey cm' P
   \<and> length (Sum256 P) = 32
   \<and> length (GenerateKey cm P) = 64
   \<and> set (GenerateKey cm P) \<subseteq> set ''0123456789abcdef''
   \<and> hex_value (GenerateKey cm P) = be_value (Sum256 P)
   \<and> be_value (Sum256 P) < 2 ^ 256
   \<and> (GenerateKey cm P = GenerateKey cm' Q \<longleftrightarrow> Sum256 P = Sum256 Q)
   \<and> (P @ padding (length P) = Q @ padding (length Q) \<longleftrightarrow> P = Q)
   \<and> GenerateKey cm [] = ''e3b0c44298fc1c149afbf4c8996fb92427ae41e4649b934ca495991b7852b855''
   \<and> GenerateKey cm ''abc'' = ''ba7816bf8f01cfea414140de5dae2223b00361a396177a9cb410ff61f20015ad''
   \<and> GenerateKey cm ''abcdbcdecdefdefgefghfghighijhijkijkljklmklmnlmnomnopnopq''
       = ''248d6a61d20638b8e5c026930c3e6039a33ce45964ff2167f6ecedd419db06c1''
   \<and> GenerateKey cm ''{"a":1}'' = ''015abd7f5cc57a2dd94b7590f04ad8084273905ee33ec5cebeae62276a97f862''
   \<and> GenerateKey cm ''{"a": 1}'' = ''f9d86028c6e0d64e225186f96acb69338b2c59764df79162107f5c4bb34d1310''
   \<and> GenerateKey cm ''{"a":1}'' \<noteq> GenerateKey cm ''{"a": 1}''\<close>
proof -
  have "be_value (Sum256 P) < 256 ^ 32"
    using be_value_bound [of "Sum256 P"] by (simp add: length_Sum256)
  then have b: "be_value (Sum256 P) < 2 ^ 256" by simp
  have general: "GenerateKey cm P = GenerateKey cm' P
     \<and> length (Sum256 P) = 32
     \<and> length (GenerateKey cm P) = 64
     \<and> set (GenerateKey cm P) \<subseteq> set ''0123456789abcdef''
     \<and> hex_value (GenerateKey cm P) = be_value (Sum256 P)
     \<and> (GenerateKey cm P = GenerateKey cm' Q \<longleftrightarrow> Sum256 P = Sum256 Q)"
    using set_EncodeToString [of "Sum256 P"] EncodeToString_inj [of "Sum256 P" "Sum256 Q"]
    by (auto simp: GenerateKey_def length_Sum256 length_EncodeToString hextable_def
          hex_value_EncodeToString)
  have pad: "P @ padding (length P) = Q @ padding (length Q) \<longleftrightarrow> P = Q"
    using padded_inj [of P Q] by auto
  have examples: \<open>GenerateKey cm [] = ''e3b0c44298fc1c149afbf4c8996fb92427ae41e4649b934ca495991b7852b855''\<close>
      \<open>GenerateKey cm ''abc'' = ''ba7816bf8f01cfea414140de5dae2223b00361a396177a9cb410ff61f20015ad''\<close>
      \<open>GenerateKey cm ''abcdbcdecdefdefgefghfghighijhijkijkljklmklmnlmnomnopnopq''
         = ''248d6a61d20638b8e5c026930c3e6039a33ce45964ff2167f6ecedd419db06c1''\<close>
      \<open>GenerateKey cm ''{"a":1}'' = ''015abd7f5cc57a2dd94b7590f04ad8084273905ee33ec5cebeae62276a97f862''\<close>
      \<open>GenerateKey cm ''{"a": 1}'' = ''f9d86028c6e0d64e225186f96acb69338b2c59764df79162107f5c4bb34d1310''\<close>
    by (simp_all only: GenerateKey_def Sum256_empty Sum256_abc Sum256_two_blocks Sum256_body
          Sum256_body_spaced)
  have differ: \<open>GenerateKey cm ''{"a":1}'' \<noteq> GenerateKey cm ''{"a": 1}''\<close>
    by (simp only: examples) simp
  from general b pad examples differ show ?thesis by blast
qed

theorem GenerateKey_sha256_hex_witness:
  "GenerateKey \<lparr>db = None, ttl = 0\<rparr> ''abc''
     = ''ba7816bf8f01cfea414140de5dae2223b00361a396177a9cb410ff61f20015ad''
   \<and> GenerateKey \<lparr>db = Some \<lparr>items = Map.empty, journal = []\<rparr>, ttl = 1\<rparr> ''abc''
       = GenerateKey \<lparr>db = None, ttl = 0\<rparr> ''abc''
   \<and> length (GenerateKey \<lparr>db = None, ttl = 0\<rparr> ''abc'') = 64"
proof -
  note t = GenerateKey_sha256_hex [of "\<lparr>db = None, ttl = 0\<rparr>" "''abc''"
      "\<lparr>db = Some \<lparr>items = Map.empty, journal = []\<rparr>, ttl = 1\<rparr>" "''abc''"]
  from t have a: "GenerateKey \<lparr>db = None, ttl = 0\<rparr> ''abc''
      = GenerateKey \<lparr>db = Some \<lparr>items = Map.empty, journal = []\<rparr>, ttl = 1\<rparr> ''abc''"
    by (rule conjunct1)
  from t have b: "length (GenerateKey \<lparr>db = None, ttl = 0\<rparr> ''abc'') = 64"
    by blast
  from t have c: "GenerateKey \<lparr>db = None, ttl = 0\<rparr> ''abc''
      = ''ba7816bf8f01cfea414140de5dae2223b00361a396177a9cb410ff61f20015ad''"
    by blast
  from a [symmetric] b c show ?thesis by (intro conjI)
qed

subsection \<open>Delete and Close\<close>

lemma modify_accepts:
  "modify key [] = None \<longleftrightarrow> key \<noteq> [] \<and> \<not> HasPrefix key badgerPrefix \<and> length key \<le> maxKeySize"
  by (simp add: modify_def)

lemma modify_not_ErrKeyNotFound: "modify key v \<noteq> Some ErrKeyNotFound"
  by (simp add: modify_def)

lemma GenerateKey_not_reserved: "\<not> HasPrefix (GenerateKey cm P) badgerPrefix"
proof
  assume h: "HasPrefix (GenerateKey cm P) badgerPrefix"
  have "length (GenerateKey cm P) = 64"
    by (simp add: GenerateKey_def length_EncodeToString length_Sum256)
  then obtain c cs where k: "GenerateKey cm P = c # cs"
    by (cases "GenerateKey cm P") simp_all
  with h have "c = CHR ''!''"
    by (simp add: HasPrefix_def badgerPrefix_def)
  moreover from k set_EncodeToString [of "Sum256 P"] have "c \<in> set hextable"
    by (auto simp: GenerateKey_def)
  ultimately show False by (simp add: hextable_def)
qed

lemma modify_GenerateKey:
  "modify (GenerateKey cm P) v = (if ValueLogFileSize < length v then Some ErrValueTooLarge else None)"
proof -
  have "length (GenerateKey cm P) = 64"
    by (simp add: GenerateKey_def length_EncodeToString length_Sum256)
  with GenerateKey_not_reserved [of cm P] show ?thesis
    by (simp add: modify_def maxKeySize_def)
qed

text \<open>
  C8, as stated, fails for the empty key: the engine refuses it, and \<open>Delete\<close> on a
  working store without any entry returns that refusal as an error.
\<close>

theorem Delete_empty_key_fails:
  "items \<lparr>items = Map.empty, journal = []\<rparr> [] = None
   \<and> Delete \<lparr>db = Some \<lparr>items = Map.empty, journal = []\<rparr>, ttl = 5\<rparr> None []
       = (Ret (Some (DeleteFailed ErrEmptyKey)),
          \<lparr>db = Some \<lparr>items = Map.empty, journal = [OpDelete []]\<rparr>, ttl = 5\<rparr>)"
  by (simp add: Delete_def db_delete_def modify_def)

text \<open>
  C8, amended: on a store whose engine does not fail, \<open>Delete\<close> returns no error exactly
  for the keys the engine accepts (not empty, not beginning with the engine's reserved
  prefix \<open>!badger!\<close>, at most 65000 bytes), whether or not the store holds an entry under
  the key, and the key is absent afterwards; every key made by \<open>GenerateKey\<close> is
  accepted. An engine answer \<open>ErrKeyNotFound\<close> is not an error of \<open>Delete\<close> either.
  \<open>Close\<close> on a manager whose database pointer is nil returns no error, whatever the
  engine would have answered.
\<close>

theorem Delete_absent_Close_nil_ok:
  assumes "db cm = Some d"
  shows "(fst (Delete cm None key) = Ret None
            \<longleftrightarrow> key \<noteq> [] \<and> \<not> HasPrefix key badgerPrefix \<and> length key \<le> maxKeySize)
     \<and> (key \<noteq> [] \<and> \<not> HasPrefix key badgerPrefix \<and> length key \<le> maxKeySize \<longrightarrow>
          Delete cm None key =
            (Ret None, cm\<lparr>db := Some (d\<lparr>items := (items d)(key := None),
                                           journal := journal d @ [OpDelete key]\<rparr>)\<rparr>)
          \<and> Delete cm (Some ErrKeyNotFound) key =
              (Ret None, cm\<lparr>db := Some (d\<lparr>journal := journal d @ [OpDelete key]\<rparr>)\<rparr>))
     \<and> Delete cm None (GenerateKey cm P) =
         (Ret None, cm\<lparr>db := Some (d\<lparr>items := (items d)(GenerateKey cm P := None),
                                        journal := journal d @ [OpDelete (GenerateKey cm P)]\<rparr>)\<rparr>)
     \<and> Close (cm\<lparr>db := None\<rparr>) close_result = None"
proof -
  have a: "fst (Delete cm None key) = Ret None
             \<longleftrightarrow> key \<noteq> [] \<and> \<not> HasPrefix key badgerPrefix \<and> length key \<le> maxKeySize"
    using assms modify_accepts [of key] modify_not_ErrKeyNotFound [of key "[]"]
    by (cases "modify key []") (auto simp: Delete_def db_delete_def)
  have b: "key \<noteq> [] \<and> \<not> HasPrefix key badgerPrefix \<and> length key \<le> maxKeySize \<longrightarrow>
          Delete cm None key =
            (Ret None, cm\<lparr>db := Some (d\<lparr>items := (items d)(key := None),
                                           journal := journal d @ [OpDelete key]\<rparr>)\<rparr>)
          \<and> Delete cm (Some ErrKeyNotFound) key =
              (Ret None, cm\<lparr>db := Some (d\<lparr>journal := journal d @ [OpDelete key]\<rparr>)\<rparr>)"
    using assms modify_accepts [of key] by (auto simp: Delete_def db_delete_def)
  have c: "Delete cm None (GenerateKey cm P) =
         (Ret None, cm\<lparr>db := Some (d\<lparr>items := (items d)(GenerateKey cm P := None),
                                        journal := journal d @ [OpDelete (GenerateKey cm P)]\<rparr>)\<rparr>)"
    using assms by (simp add: Delete_def db_delete_def modify_GenerateKey)
  from a b c show ?thesis by (simp add: Close_def)
qed

theorem Delete_absent_Close_nil_ok_witness:
  "Delete \<lparr>db = Some \<lparr>items = Map.empty, journal = []\<rparr>, ttl = 5\<rparr> None ''k''
     = (Ret None, \<lparr>db = Some \<lparr>items = Map.empty, journal = [OpDelete ''k'']\<rparr>, ttl = 5\<rparr>)
   \<and> Delete \<lparr>db = Some \<lparr>items = [''k'' \<mapsto> \<lparr>val = ''v'', ExpiresAt = 5\<rparr>], journal = []\<rparr>, ttl = 5\<rparr> None ''k''
       = (Ret None, \<lparr>db = Some \<lparr>items = Map.empty, journal = [OpDelete ''k'']\<rparr>, ttl = 5\<rparr>)
   \<and> Close \<lparr>db = None, ttl = 5\<rparr> (Some (ErrEngine ''closed'')) = None"
  using Delete_absent_Close_nil_ok [of "\<lparr>db = Some \<lparr>items = Map.empty, journal = []\<rparr>, ttl = 5\<rparr>"
           "\<lparr>items = Map.empty, journal = []\<rparr>" "''k''" "''{}''" "Some (ErrEngine ''closed'')"]
        Delete_absent_Close_nil_ok [of "\<lparr>db = Some \<lparr>items = [''k'' \<mapsto> \<lparr>val = ''v'', ExpiresAt = 5\<rparr>], journal = []\<rparr>, ttl = 5\<rparr>"
           "\<lparr>items = [''k'' \<mapsto> \<lparr>val = ''v'', ExpiresAt = 5\<rparr>], journal = []\<rparr>" "''k''" "''{}''" "Some (ErrEngine ''closed'')"]
  by (simp add: HasPrefix_def badgerPrefix_def maxKeySize_def)

subsection \<open>The handler on a miss\<close>

lemma Unmarshal_result_Nil: "Unmarshal_result [] = Inl SyntaxError"
  by (simp add: Unmarshal_result_def parse_json_def is_space_def)

lemma shouldCache_iff:
  "shouldCache s R \<longleftrightarrow> s = 200 \<and> (\<exists>res. Unmarshal_result R = Inr res \<and> Code res = 0)"
  by (cases R) (auto simp: shouldCache_def Unmarshal_result_Nil split: sum.splits)

lemma Get_Ret_db: "Get cm key now now' vf df = (Ret x, cm') \<Longrightarrow> \<exists>d'. db cm' = Some d' \<and> ttl cm' = ttl cm"
  by (auto simp: Get_def db_view_def Delete_def db_delete_def
        split: option.splits sum.splits if_splits prod.splits)

text \<open>The store after the write transaction of \<open>Set\<close> for a fingerprint.\<close>

lemma db_set_entry_GenerateKey:
  "db_set_entry d fault (GenerateKey cm P) data x =
     (if length data \<le> ValueLogFileSize \<and> fault = None
      then (None, d\<lparr>items := (items d)(GenerateKey cm P \<mapsto> \<lparr>val = data, ExpiresAt = x\<rparr>),
                    journal := journal d @ [OpSet (GenerateKey cm P)]\<rparr>)
      else (if ValueLogFileSize < length data then Some ErrValueTooLarge else fault,
            d\<lparr>journal := journal d @ [OpSet (GenerateKey cm P)]\<rparr>))"
  by (auto simp: db_set_entry_def modify_GenerateKey split: option.splits)

lemma handler_miss:
  assumes "Method r = ''POST''" "Body r = Some P"
    and "Get cm (GenerateKey cm P) (clock_view e) (clock_get e) (view_fault e) (delete_fault e)
           = (Ret None, cm')"
    and "db cm' = Some d'"
    and "upstream e P = Responded s hs R"
  shows "DataAPIHandler e (Some cm) r =
     write_response [(''Content-Type'', ''application/json'')] s R
       (Some (if shouldCache s R then
          cm'\<lparr>db := Some (d'\<lparr>items :=
               (if length (Marshal_entry \<lparr>RequestBody = P, ResponseBody = R, StatusCode = s,
                                          Timestamp = Unix (clock_set e)\<rparr>) \<le> ValueLogFileSize
                   \<and> set_fault e = None
                then (items d')(GenerateKey cm P \<mapsto>
                     \<lparr>val = Marshal_entry \<lparr>RequestBody = P, ResponseBody = R, StatusCode = s,
                                            Timestamp = Unix (clock_set e)\<rparr>,
                      ExpiresAt = WithTTL (clock_ttl e) (ttl cm')\<rparr>)
                else items d'),
             journal := journal d' @ [OpSet (GenerateKey cm P)]\<rparr>)\<rparr> else cm'))
       [P] (False, GenerateKey cm P)"
  using assms
  by (auto simp: DataAPIHandler_def Header_Set_def forwardRawRequestToTushareAPI_def Set_def
        db_set_entry_GenerateKey Let_def)

lemma Get_empty:
  "Get \<lparr>db = Some \<lparr>items = Map.empty, journal = j\<rparr>, ttl = t\<rparr> key now now' None df
     = (Ret None, \<lparr>db = Some \<lparr>items = Map.empty, journal = j @ [OpView key]\<rparr>, ttl = t\<rparr>)"
  by (simp add: Get_def db_view_def)

lemmas json_eval =
  parse_json_def is_space_def begin_value_def push_frame_def maxNestingDepth_def str_end_def
  num_end_def is_digit_def is_exp_def is_digit19_def is_hex_def is_cont_def cont_val_def
  result_field_def key_matches_def foldRune_def store_int_def store_string_def ParseInt_def
  digits_val_def utf8_def AppendRune_def is_surrogate_def char_of_eq_iff

lemma error_body_405:
  \<open>Marshal_result \<lparr>Code = 405, Msg = msg_method\<rparr> = ''{"code":405,"msg":"'' @ msg_method @ ''"}''\<close>
  \<open>Unmarshal_result (''{"code":405,"msg":"'' @ msg_method @ ''"}'') = Inr \<lparr>Code = 405, Msg = msg_method\<rparr>\<close>
  by (simp_all add: Marshal_result_def msg_method_def itoa_def digits.simps digit_char_def
        htmlSafe_def Unmarshal_result_def json_eval)

lemma error_body_400:
  \<open>Marshal_result \<lparr>Code = 400, Msg = msg_read\<rparr> = ''{"code":400,"msg":"'' @ msg_read @ ''"}''\<close>
  \<open>Unmarshal_result (''{"code":400,"msg":"'' @ msg_read @ ''"}'') = Inr \<lparr>Code = 400, Msg = msg_read\<rparr>\<close>
  by (simp_all add: Marshal_result_def msg_read_def itoa_def digits.simps digit_char_def
        htmlSafe_def Unmarshal_result_def json_eval)

lemma error_body_500:
  \<open>Marshal_result \<lparr>Code = 500, Msg = msg_forward\<rparr> = ''{"code":500,"msg":"'' @ msg_forward @ ''"}''\<close>
  \<open>Unmarshal_result (''{"code":500,"msg":"'' @ msg_forward @ ''"}'') = Inr \<lparr>Code = 500, Msg = msg_forward\<rparr>\<close>
  by (simp_all add: Marshal_result_def msg_forward_def itoa_def digits.simps digit_char_def
        htmlSafe_def Unmarshal_result_def json_eval)

lemma handler_early:
  "Method r \<noteq> ''POST'' \<Longrightarrow>
     DataAPIHandler e cmo r =
       \<lparr>resp = Ret (sendErrorResponse [(''Content-Type'', ''application/json'')] msg_method 405),
        manager = cmo, forwarded = [], done_log = None\<rparr>"
  "Method r = ''POST'' \<Longrightarrow> Body r = None \<Longrightarrow>
     DataAPIHandler e cmo r =
       \<lparr>resp = Ret (sendErrorResponse [(''Content-Type'', ''application/json'')] msg_read 400),
        manager = cmo, forwarded = [], done_log = None\<rparr>"
  by (simp_all add: DataAPIHandler_def Header_Set_def)

lemma handler_hit:
  assumes "Method r = ''POST''" and "Body r = Some P"
    and "Get cm (GenerateKey cm P) (clock_view e) (clock_get e) (view_fault e) (delete_fault e)
           = (Ret (Some en), cm')"
  shows "DataAPIHandler e (Some cm) r =
     write_response [(''Content-Type'', ''application/json'')] (StatusCode en) (ResponseBody en)
       (Some cm') [] (True, GenerateKey cm P)"
  using assms by (simp add: DataAPIHandler_def Header_Set_def)

lemma handler_panic:
  assumes "Method r = ''POST''" and "Body r = Some P"
    and "Get cm (GenerateKey cm P) (clock_view e) (clock_get e) (view_fault e) (delete_fault e)
           = (Panic, cm')"
  shows "DataAPIHandler e (Some cm) r =
     \<lparr>resp = Panic, manager = Some cm', forwarded = [], done_log = None\<rparr>"
  using assms by (simp add: DataAPIHandler_def Header_Set_def)

lemma handler_miss_failed:
  assumes "Method r = ''POST''" and "Body r = Some P"
    and "Get cm (GenerateKey cm P) (clock_view e) (clock_get e) (view_fault e) (delete_fault e)
           = (Ret None, cm')"
    and "\<forall>s hs R. upstream e P \<noteq> Responded s hs R"
  shows "DataAPIHandler e (Some cm) r =
     \<lparr>resp = Ret (sendErrorResponse [(''Content-Type'', ''application/json'')] msg_forward 500),
      manager = Some cm', forwarded = [P], done_log = None\<rparr>"
  using assms
  by (cases "upstream e P")
     (simp_all add: DataAPIHandler_def Header_Set_def forwardRawRequestToTushareAPI_def)

lemma handler_nocache:
  assumes "Method r = ''POST''" and "Body r = Some P"
  shows "DataAPIHandler e None r =
     (case upstream e P of
        Responded s hs R \<Rightarrow>
          write_response [(''Content-Type'', ''application/json'')] s R None [P] (False, [])
      | _ \<Rightarrow>
          \<lparr>resp = Ret (sendErrorResponse [(''Content-Type'', ''application/json'')] msg_forward 500),
           manager = None, forwarded = [P], done_log = None\<rparr>)"
  using assms
  by (cases "upstream e P")
     (simp_all add: DataAPIHandler_def Header_Set_def forwardRawRequestToTushareAPI_def)

lemma handler_forward_failed:
  assumes "Method r = ''POST''" and "Body r = Some P"
    and "forwarded (DataAPIHandler e cmo r) \<noteq> []" and "\<forall>s hs R. upstream e P \<noteq> Responded s hs R"
  shows "resp (DataAPIHandler e cmo r)
           = Ret (sendErrorResponse [(''Content-Type'', ''application/json'')] msg_forward 500)"
proof (cases cmo)
  case None
  with handler_nocache [OF assms(1,2), of e] assms(4) show ?thesis
    by (cases "upstream e P") auto
next
  case (Some cm)
  obtain found cm' where g: "Get cm (GenerateKey cm P) (clock_view e) (clock_get e) (view_fault e)
      (delete_fault e) = (found, cm')"
    by (cases "Get cm (GenerateKey cm P) (clock_view e) (clock_get e) (view_fault e) (delete_fault e)")
  show ?thesis
  proof (cases found)
    case Panic
    with handler_panic [OF assms(1,2)] g assms(3) Some show ?thesis by simp
  next
    case (Ret x)
    show ?thesis
    proof (cases x)
      case None
      with handler_miss_failed [OF assms(1,2) _ assms(4)] Ret g Some show ?thesis by auto
    next
      case en: (Some en)
      with handler_hit [OF assms(1,2)] Ret g assms(3) \<open>cmo = Some cm\<close> show ?thesis
        by (auto simp: write_response_def)
    qed
  qed
qed

text \<open>The store after a miss that was forwarded and answered.\<close>

lemma miss_store:
  assumes "Method r = ''POST''" and "Body r = Some P"
    and "Get cm (GenerateKey cm P) (clock_view e) (clock_get e) (view_fault e) (delete_fault e)
           = (Ret None, cm')"
    and "db cm' = Some d'"
    and "upstream e P = Responded s hs R"
  shows "\<exists>dw.
     manager (DataAPIHandler e (Some cm) r) = Some (cm'\<lparr>db := Some dw\<rparr>)
     \<and> forwarded (DataAPIHandler e (Some cm) r) = [P]
     \<and> (journal dw = journal d' @ [OpSet (GenerateKey cm P)] \<longleftrightarrow> shouldCache s R)
     \<and> (dw = d' \<longleftrightarrow> \<not> shouldCache s R)
     \<and> items dw =
         (if shouldCache s R
             \<and> length (Marshal_entry \<lparr>RequestBody = P, ResponseBody = R, StatusCode = s,
                                        Timestamp = Unix (clock_set e)\<rparr>) \<le> ValueLogFileSize
             \<and> set_fault e = None
          then (items d')(GenerateKey cm P \<mapsto>
                  \<lparr>val = Marshal_entry \<lparr>RequestBody = P, ResponseBody = R, StatusCode = s,
                                         Timestamp = Unix (clock_set e)\<rparr>,
                   ExpiresAt = WithTTL (clock_ttl e) (ttl cm')\<rparr>)
          else items d')"
proof (cases "shouldCache s R")
  case True
  let ?dw = "d'\<lparr>items :=
               (if length (Marshal_entry \<lparr>RequestBody = P, ResponseBody = R, StatusCode = s,
                                          Timestamp = Unix (clock_set e)\<rparr>) \<le> ValueLogFileSize
                   \<and> set_fault e = None
                then (items d')(GenerateKey cm P \<mapsto>
                     \<lparr>val = Marshal_entry \<lparr>RequestBody = P, ResponseBody = R, StatusCode = s,
                                            Timestamp = Unix (clock_set e)\<rparr>,
                      ExpiresAt = WithTTL (clock_ttl e) (ttl cm')\<rparr>)
                else items d'),
             journal := journal d' @ [OpSet (GenerateKey cm P)]\<rparr>"
  have "?dw \<noteq> d'"
  proof
    assume "?dw = d'"
    then have "journal ?dw = journal d'" by simp
    then show False by simp
  qed
  with True handler_miss [OF assms] show ?thesis
    by (intro exI [of _ ?dw]) (simp add: write_response_def)
next
  case False
  with handler_miss [OF assms] assms(4) show ?thesis
    by (intro exI [of _ d']) (auto simp: write_response_def)
qed

subsection \<open>What is cached\<close>

lemma ex_ok_parses: "Unmarshal_result ex_ok = Inr \<lparr>Code = 0, Msg = []\<rparr>"
  by (simp add: ex_ok_def Unmarshal_result_def parse_json_def is_space_def begin_value_def
        push_frame_def maxNestingDepth_def str_end_def num_end_def is_digit_def is_exp_def is_digit19_def
        result_field_def key_matches_def foldRune_def store_int_def ParseInt_def digits_val_def)

lemma ex_get_miss:
  "Get ex_cm (GenerateKey ex_cm ''{}'') (clock_view (ex_env s R)) (clock_get (ex_env s R))
      (view_fault (ex_env s R)) (delete_fault (ex_env s R))
   = (Ret None, \<lparr>db = Some \<lparr>items = Map.empty, journal = [OpView (GenerateKey ex_cm ''{}'')]\<rparr>,
                 ttl = 86400000000000\<rparr>)"
  by (simp add: ex_cm_def ex_env_def Get_empty)

lemma length_b64enc: "length (b64enc bs) \<le> 4 + 2 * length bs"
  by (induction bs rule: b64enc.induct) simp_all

lemma ex_entry_small:
  assumes "length R \<le> 100"
  shows "length (Marshal_entry \<lparr>RequestBody = ''{}'', ResponseBody = R, StatusCode = 200,
                                 Timestamp = 1700000000\<rparr>) \<le> ValueLogFileSize"
proof -
  have "length (Marshal_entry \<lparr>RequestBody = ''{}'', ResponseBody = R, StatusCode = 200,
                                 Timestamp = 1700000000\<rparr>) \<le> 100 + length (b64enc R)"
    by (simp add: Marshal_entry_def itoa_def digits.simps)
  with length_b64enc [of R] assms show ?thesis
    by (simp add: ValueLogFileSize_def)
qed

text \<open>
  C1, as stated, fails: the status 201 lies in the success range and the body
  \<open>{"code":0}\<close> parses as the envelope with code 0, yet the handler, on a working store,
  leaves the store without an entry and without a write transaction.
\<close>

theorem status_201_not_cached:
  "success_range 201 \<and> Unmarshal_result ex_ok = Inr \<lparr>Code = 0, Msg = []\<rparr>
   \<and> DataAPIHandler (ex_env 201 ex_ok) (Some ex_cm) ex_req =
       \<lparr>resp = Ret \<lparr>header = [(''Content-Type'', ''application/json'')], status = 201, body = ex_ok\<rparr>,
        manager = Some \<lparr>db = Some \<lparr>items = Map.empty, journal = [OpView (GenerateKey ex_cm ''{}'')]\<rparr>,
                         ttl = 86400000000000\<rparr>,
        forwarded = [''{}''], done_log = Some (False, GenerateKey ex_cm ''{}'')\<rparr>"
proof -
  have n: "\<not> shouldCache 201 ex_ok" by (simp add: shouldCache_def)
  show ?thesis
    using handler_miss [where e = "ex_env 201 ex_ok" and cm = ex_cm and r = ex_req and P = "''{}''"
        and s = 201 and hs = "[(''Server'', ''upstream'')]" and R = ex_ok, OF _ _ ex_get_miss] n
    by (simp add: ex_req_def ex_env_def success_range_def ex_ok_parses write_response_def)
qed

text \<open>
  C1, amended: with caching enabled, for every response (status \<open>s\<close>, body \<open>R\<close>) the
  forwarder obtains after a miss, the handler runs a write transaction for the request's
  fingerprint if and only if \<open>s\<close> is exactly 200 and \<open>R\<close> parses as the envelope with
  code 0; that transaction puts the entry into the store unless the engine refuses the
  value for its size or fails. In every other case the store is as \<open>Get\<close> left it, although
  the body was forwarded and answered.
\<close>

theorem write_iff_200_and_code_0:
  assumes "Method r = ''POST''" and "Body r = Some P"
    and "Get cm (GenerateKey cm P) (clock_view e) (clock_get e) (view_fault e) (delete_fault e)
           = (Ret None, cm')"
    and "db cm' = Some d'"
    and "upstream e P = Responded s hs R"
  shows "\<exists>dw.
     manager (DataAPIHandler e (Some cm) r) = Some (cm'\<lparr>db := Some dw\<rparr>)
     \<and> forwarded (DataAPIHandler e (Some cm) r) = [P]
     \<and> (journal dw = journal d' @ [OpSet (GenerateKey cm P)]
          \<longleftrightarrow> s = 200 \<and> (\<exists>res. Unmarshal_result R = Inr res \<and> Code res = 0))
     \<and> (dw = d'
          \<longleftrightarrow> \<not> (s = 200 \<and> (\<exists>res. Unmarshal_result R = Inr res \<and> Code res = 0)))
     \<and> items dw =
         (if s = 200 \<and> (\<exists>res. Unmarshal_result R = Inr res \<and> Code res = 0)
             \<and> length (Marshal_entry \<lparr>RequestBody = P, ResponseBody = R, StatusCode = s,
                                        Timestamp = Unix (clock_set e)\<rparr>) \<le> ValueLogFileSize
             \<and> set_fault e = None
          then (items d')(GenerateKey cm P \<mapsto>
                  \<lparr>val = Marshal_entry \<lparr>RequestBody = P, ResponseBody = R, StatusCode = s,
                                         Timestamp = Unix (clock_set e)\<rparr>,
                   ExpiresAt = WithTTL (clock_ttl e) (ttl cm')\<rparr>)
          else items d')"
  using miss_store [OF assms] shouldCache_iff [of s R] by simp

theorem write_iff_200_and_code_0_witness:
  "\<exists>dw.
     manager (DataAPIHandler (ex_env 200 ex_ok) (Some ex_cm) ex_req)
       = Some \<lparr>db = Some dw, ttl = 86400000000000\<rparr>
     \<and> forwarded (DataAPIHandler (ex_env 200 ex_ok) (Some ex_cm) ex_req) = [''{}'']
     \<and> journal dw = [OpView (GenerateKey ex_cm ''{}''), OpSet (GenerateKey ex_cm ''{}'')]
     \<and> items dw = [GenerateKey ex_cm ''{}'' \<mapsto>
           \<lparr>val = Marshal_entry \<lparr>RequestBody = ''{}'', ResponseBody = ex_ok, StatusCode = 200,
                                  Timestamp = 1700000000\<rparr>,
            ExpiresAt = 1700086400\<rparr>]"
proof -
  have small: "length (Marshal_entry \<lparr>RequestBody = ''{}'', ResponseBody = ex_ok, StatusCode = 200,
                                       Timestamp = 1700000000\<rparr>) \<le> ValueLogFileSize"
    by (rule ex_entry_small) (simp add: ex_ok_def)
  show ?thesis
    using write_iff_200_and_code_0 [where e = "ex_env 200 ex_ok" and cm = ex_cm and r = ex_req
        and P = "''{}''" and s = 200 and hs = "[(''Server'', ''upstream'')]" and R = ex_ok
        and d' = "\<lparr>items = Map.empty, journal = [OpView (GenerateKey ex_cm ''{}'')]\<rparr>",
        OF _ _ ex_get_miss]
      small
    by (auto simp: ex_req_def ex_env_def ex_ok_parses Unix_def WithTTL_def uint64_def)
qed

subsection \<open>Bodies without a code\<close>

lemma ex_msg1_parses: "parse_json ex_msg1 = Some (JObj [(map of_char ''msg'', JNum ''1'')])"
  by (simp add: ex_msg1_def parse_json_def is_space_def begin_value_def push_frame_def
        maxNestingDepth_def str_end_def num_end_def is_digit_def is_exp_def is_digit19_def)

text \<open>
  C9, as stated, fails: \<open>{"msg":1}\<close> is valid JSON, an object without a code field, and
  arrives with status 200; decoding it into the envelope is a type error (a number for
  the string field), so the response is not judged cacheable and nothing is written.
\<close>

theorem object_without_code_not_cached:
  "parse_json ex_msg1 = Some (JObj [(map of_char ''msg'', JNum ''1'')])
   \<and> Unmarshal_result ex_msg1 = Inl UnmarshalTypeError
   \<and> DataAPIHandler (ex_env 200 ex_msg1) (Some ex_cm) ex_req =
       \<lparr>resp = Ret \<lparr>header = [(''Content-Type'', ''application/json'')], status = 200, body = ex_msg1\<rparr>,
        manager = Some \<lparr>db = Some \<lparr>items = Map.empty, journal = [OpView (GenerateKey ex_cm ''{}'')]\<rparr>,
                         ttl = 86400000000000\<rparr>,
        forwarded = [''{}''], done_log = Some (False, GenerateKey ex_cm ''{}'')\<rparr>"
proof -
  have u: "Unmarshal_result ex_msg1 = Inl UnmarshalTypeError"
    by (simp add: Unmarshal_result_def ex_msg1_parses result_field_def key_matches_def
          foldRune_def store_string_def)
  then have n: "\<not> shouldCache 200 ex_msg1" by (simp add: shouldCache_def)
  show ?thesis
    using handler_miss [where e = "ex_env 200 ex_msg1" and cm = ex_cm and r = ex_req and P = "''{}''"
        and s = 200 and hs = "[(''Server'', ''upstream'')]" and R = ex_msg1, OF _ _ ex_get_miss] n u
    by (simp add: ex_req_def ex_env_def ex_msg1_parses write_response_def)
qed

lemma result_field_no_code:
  assumes "\<not> key_matches ''code'' (fst m)"
  shows "result_field m r =
     (if \<not> key_matches ''msg'' (fst m) then Inr r
      else (case snd m of
              JNull \<Rightarrow> Inr r
            | JStr s \<Rightarrow> Inr (r\<lparr>Msg := utf8 s\<rparr>)
            | _ \<Rightarrow> Inl UnmarshalTypeError))"
  using assms
  by (cases m) (auto simp: result_field_def store_string_def split: json.splits)

lemma decode_members_fit:
  assumes "list_all (\<lambda>m. \<not> key_matches ''code'' (fst m)) ms"
    and "list_all (\<lambda>m. \<not> key_matches ''msg'' (fst m)
                          \<or> (case snd m of JNull \<Rightarrow> True | JStr s \<Rightarrow> True | _ \<Rightarrow> False)) ms"
  shows "\<exists>res. decode_members result_field ms r = Inr res \<and> Code res = Code r"
  using assms
proof (induction ms arbitrary: r)
  case Nil
  then show ?case by simp
next
  case (Cons m ms)
  from Cons.prems have "\<exists>r'. result_field m r = Inr r' \<and> Code r' = Code r"
    by (auto simp: result_field_no_code split: json.splits)
  then obtain r' where r': "result_field m r = Inr r'" "Code r' = Code r"
    by blast
  from Cons.IH [of r'] Cons.prems obtain res where "decode_members result_field ms r' = Inr res"
      "Code res = Code r'"
    by auto
  with r' show ?case by simp
qed

lemma decode_members_unfit:
  assumes "list_all (\<lambda>m. \<not> key_matches ''code'' (fst m)) ms"
    and "\<not> list_all (\<lambda>m. \<not> key_matches ''msg'' (fst m)
                          \<or> (case snd m of JNull \<Rightarrow> True | JStr s \<Rightarrow> True | _ \<Rightarrow> False)) ms"
  shows "decode_members result_field ms r = Inl UnmarshalTypeError"
  using assms
proof (induction ms arbitrary: r)
  case Nil
  then show ?case by simp
next
  case (Cons m ms)
  from Cons.prems have nc: "\<not> key_matches ''code'' (fst m)" by simp
  show ?case
  proof (cases "\<not> key_matches ''msg'' (fst m)
                  \<or> (case snd m of JNull \<Rightarrow> True | JStr s \<Rightarrow> True | _ \<Rightarrow> False)")
    case True
    with nc have "\<exists>r'. result_field m r = Inr r'"
      by (auto simp: result_field_no_code split: json.splits)
    then obtain r' where r': "result_field m r = Inr r'" by blast
    from True Cons.prems Cons.IH [of r'] have "decode_members result_field ms r' = Inl UnmarshalTypeError"
      by simp
    with r' show ?thesis by simp
  next
    case False
    with nc have "result_field m r = Inl UnmarshalTypeError"
      by (auto simp: result_field_no_code split: json.splits)
    then show ?thesis by simp
  qed
qed

lemma Unmarshal_lacks_code:
  assumes "parse_json R = Some v" and "lacks_code v"
  shows "(v = JNull \<or> msg_members_fit v \<longrightarrow> (\<exists>res. Unmarshal_result R = Inr res \<and> Code res = 0))
     \<and> (\<not> (v = JNull \<or> msg_members_fit v) \<longrightarrow> Unmarshal_result R = Inl UnmarshalTypeError)"
proof (cases v)
  case (JObj ms)
  with assms(2) have nc: "list_all (\<lambda>m. \<not> key_matches ''code'' (fst m)) ms"
    by (simp add: lacks_code_def)
  show ?thesis
  proof (cases "msg_members_fit v")
    case True
    with JObj decode_members_fit [OF nc, of "\<lparr>Code = 0, Msg = []\<rparr>"] assms(1) show ?thesis
      by (simp add: msg_members_fit_def Unmarshal_result_def)
  next
    case False
    with JObj decode_members_unfit [OF nc, of "\<lparr>Code = 0, Msg = []\<rparr>"] assms(1) show ?thesis
      by (simp add: msg_members_fit_def Unmarshal_result_def)
  qed
qed (use assms(1) in \<open>simp_all add: Unmarshal_result_def msg_members_fit_def\<close>)

text \<open>
  C9, amended: take an upstream response with status 200 whose body is valid JSON
  without a member for the field code. If the body is the literal \<open>null\<close>, or an object
  whose members for the field msg (if any) are strings or \<open>null\<close>, it decodes with the
  zero value 0 for the code, is judged cacheable and a write transaction for it is run,
  as if the upstream had sent code 0. In every other case (an array, a string, a number,
  a boolean, or an object with a member for msg of another type) decoding is a type
  error, the response is not judged cacheable and the store is left as it was.
\<close>

theorem missing_code_is_cached:
  assumes "Method r = ''POST''" and "Body r = Some P"
    and "Get cm (GenerateKey cm P) (clock_view e) (clock_get e) (view_fault e) (delete_fault e)
           = (Ret None, cm')"
    and "db cm' = Some d'"
    and "upstream e P = Responded 200 hs R"
    and "parse_json R = Some v" and "lacks_code v"
  shows "((\<exists>res. Unmarshal_result R = Inr res \<and> Code res = 0) \<longleftrightarrow> v = JNull \<or> msg_members_fit v)
     \<and> (Unmarshal_result R = Inl UnmarshalTypeError \<longleftrightarrow> \<not> (v = JNull \<or> msg_members_fit v))
     \<and> (shouldCache 200 R \<longleftrightarrow> v = JNull \<or> msg_members_fit v)
     \<and> (\<exists>dw.
          manager (DataAPIHandler e (Some cm) r) = Some (cm'\<lparr>db := Some dw\<rparr>)
          \<and> (journal dw = journal d' @ [OpSet (GenerateKey cm P)] \<longleftrightarrow> v = JNull \<or> msg_members_fit v)
          \<and> (dw = d' \<longleftrightarrow> \<not> (v = JNull \<or> msg_members_fit v))
          \<and> items dw =
              (if (v = JNull \<or> msg_members_fit v)
                  \<and> length (Marshal_entry \<lparr>RequestBody = P, ResponseBody = R, StatusCode = 200,
                                             Timestamp = Unix (clock_set e)\<rparr>) \<le> ValueLogFileSize
                  \<and> set_fault e = None
               then (items d')(GenerateKey cm P \<mapsto>
                       \<lparr>val = Marshal_entry \<lparr>RequestBody = P, ResponseBody = R, StatusCode = 200,
                                              Timestamp = Unix (clock_set e)\<rparr>,
                        ExpiresAt = WithTTL (clock_ttl e) (ttl cm')\<rparr>)
               else items d'))"
proof -
  note u = Unmarshal_lacks_code [OF assms(6,7)]
  have a: "(\<exists>res. Unmarshal_result R = Inr res \<and> Code res = 0) \<longleftrightarrow> v = JNull \<or> msg_members_fit v"
    using u by auto
  have b: "Unmarshal_result R = Inl UnmarshalTypeError \<longleftrightarrow> \<not> (v = JNull \<or> msg_members_fit v)"
    using u by auto
  have c: "shouldCache 200 R \<longleftrightarrow> v = JNull \<or> msg_members_fit v"
    using a by (simp add: shouldCache_iff)
  from miss_store [OF assms(1-5)] obtain dw where
      "manager (DataAPIHandler e (Some cm) r) = Some (cm'\<lparr>db := Some dw\<rparr>)"
      "journal dw = journal d' @ [OpSet (GenerateKey cm P)] \<longleftrightarrow> shouldCache 200 R"
      "dw = d' \<longleftrightarrow> \<not> shouldCache 200 R"
      "items dw =
         (if shouldCache 200 R
             \<and> length (Marshal_entry \<lparr>RequestBody = P, ResponseBody = R, StatusCode = 200,
                                        Timestamp = Unix (clock_set e)\<rparr>) \<le> ValueLogFileSize
             \<and> set_fault e = None
          then (items d')(GenerateKey cm P \<mapsto>
                  \<lparr>val = Marshal_entry \<lparr>RequestBody = P, ResponseBody = R, StatusCode = 200,
                                         Timestamp = Unix (clock_set e)\<rparr>,
                   ExpiresAt = WithTTL (clock_ttl e) (ttl cm')\<rparr>)
          else items d')"
    by blast
  then have "manager (DataAPIHandler e (Some cm) r) = Some (cm'\<lparr>db := Some dw\<rparr>)
          \<and> (journal dw = journal d' @ [OpSet (GenerateKey cm P)] \<longleftrightarrow> v = JNull \<or> msg_members_fit v)
          \<and> (dw = d' \<longleftrightarrow> \<not> (v = JNull \<or> msg_members_fit v))
          \<and> items dw =
              (if (v = JNull \<or> msg_members_fit v)
                  \<and> length (Marshal_entry \<lparr>RequestBody = P, ResponseBody = R, StatusCode = 200,
                                             Timestamp = Unix (clock_set e)\<rparr>) \<le> ValueLogFileSize
                  \<and> set_fault e = None
               then (items d')(GenerateKey cm P \<mapsto>
                       \<lparr>val = Marshal_entry \<lparr>RequestBody = P, ResponseBody = R, StatusCode = 200,
                                              Timestamp = Unix (clock_set e)\<rparr>,
                        ExpiresAt = WithTTL (clock_ttl e) (ttl cm')\<rparr>)
               else items d')"
    using c by simp
  with a b c show ?thesis by blast
qed

theorem missing_code_is_cached_witness:
  \<open>parse_json ''{}'' = Some (JObj [])
   \<and> Unmarshal_result ''{}'' = Inr \<lparr>Code = 0, Msg = []\<rparr>
   \<and> (\<exists>dw. manager (DataAPIHandler (ex_env 200 ''{}'') (Some ex_cm) ex_req)
              = Some \<lparr>db = Some dw, ttl = 86400000000000\<rparr>
          \<and> journal dw = [OpView (GenerateKey ex_cm ''{}''), OpSet (GenerateKey ex_cm ''{}'')]
          \<and> items dw = [GenerateKey ex_cm ''{}'' \<mapsto>
                \<lparr>val = Marshal_entry \<lparr>RequestBody = ''{}'', ResponseBody = ''{}'', StatusCode = 200,
                                       Timestamp = 1700000000\<rparr>,
                 ExpiresAt = 1700086400\<rparr>])
   \<and> parse_json ''{"msg":null}'' = Some (JObj [(map of_char ''msg'', JNull)])
   \<and> shouldCache 200 ''{"msg":null}''\<close>
proof -
  have p: "parse_json ''{}'' = Some (JObj [])"
    by (simp add: parse_json_def is_space_def begin_value_def push_frame_def maxNestingDepth_def)
  have q: \<open>parse_json ''{"msg":null}'' = Some (JObj [(map of_char ''msg'', JNull)])\<close>
    by (simp add: json_eval)
  have small: "length (Marshal_entry \<lparr>RequestBody = ''{}'', ResponseBody = ''{}'', StatusCode = 200,
                                       Timestamp = 1700000000\<rparr>) \<le> ValueLogFileSize"
    by (rule ex_entry_small) simp
  have f: "lacks_code (JObj [])" "msg_members_fit (JObj [])"
      "lacks_code (JObj [(map of_char ''msg'', JNull)])"
      "msg_members_fit (JObj [(map of_char ''msg'', JNull)])"
    by (simp_all add: lacks_code_def msg_members_fit_def key_matches_def foldRune_def)
  show ?thesis
    using missing_code_is_cached [where e = "ex_env 200 ''{}''" and cm = ex_cm and r = ex_req
        and P = "''{}''" and hs = "[(''Server'', ''upstream'')]" and R = "''{}''" and v = "JObj []"
        and d' = "\<lparr>items = Map.empty, journal = [OpView (GenerateKey ex_cm ''{}'')]\<rparr>",
        OF _ _ ex_get_miss _ _ p f(1)]
      missing_code_is_cached [where e = "ex_env 200 ''{\"msg\":null}''" and cm = ex_cm and r = ex_req
        and P = "''{}''" and hs = "[(''Server'', ''upstream'')]" and R = "''{\"msg\":null}''"
        and v = "JObj [(map of_char ''msg'', JNull)]"
        and d' = "\<lparr>items = Map.empty, journal = [OpView (GenerateKey ex_cm ''{}'')]\<rparr>",
        OF _ _ ex_get_miss _ _ q f(3)]
      p q small f
    by (auto simp: ex_req_def ex_env_def Unmarshal_result_def Unix_def WithTTL_def uint64_def)
qed

subsection \<open>Stored entries: hits and expiry\<close>

lemma Set_stored:
  assumes "Set cm key P R s t0 t1 None = (Ret None, cm')"
  shows "\<exists>d. db cm = Some d \<and> modify key [] = None
     \<and> cm' = cm\<lparr>db := Some (d\<lparr>items := (items d)(key \<mapsto>
                 \<lparr>val = Marshal_entry \<lparr>RequestBody = P, ResponseBody = R, StatusCode = s,
                                        Timestamp = Unix t0\<rparr>,
                  ExpiresAt = WithTTL t1 (ttl cm)\<rparr>),
               journal := journal d @ [OpSet key]\<rparr>)\<rparr>"
  using assms
  by (auto simp: Set_def db_set_entry_def modify_def Let_def split: option.splits if_splits)

lemma Unix_int64:
  assumes "clock_reading t0"
  shows "int64 (Unix t0)"
proof -
  from assms have "0 \<le> t0 div 1000000000"
    by (simp add: clock_reading_def pos_imp_zdiv_nonneg_iff)
  moreover from assms have "t0 div 1000000000 \<le> t0"
    using zdiv_mono2 [of t0 1 1000000000] by (simp add: clock_reading_def)
  ultimately show ?thesis
    using assms
    by (simp add: clock_reading_def int64_def Unix_def)
qed



lemma Get_stored:
  assumes "db cm = Some d" and "items d key = Some it" and "val it = Marshal_entry en"
    and "int64 (StatusCode en)" and "int64 (Timestamp en)"
    and "modify key [] = None" and "\<not> isDeletedOrExpired (ExpiresAt it) now"
  shows "Get cm key now now' None df =
     (if ttl cm < time_Since now' (Timestamp en)
      then (Ret None,
            cm\<lparr>db := Some (d\<lparr>items := (if df = None then (items d)(key := None) else items d),
                              journal := journal d @ [OpView key, OpDelete key]\<rparr>)\<rparr>)
      else (Ret (Some en), cm\<lparr>db := Some (d\<lparr>journal := journal d @ [OpView key]\<rparr>)\<rparr>))"
  using assms Unmarshal_Marshal_entry [of en] modify_accepts [of key]
  by (auto simp: Get_def db_view_def Delete_def db_delete_def split: option.splits)


text \<open>
  C2: when the response \<open>R\<close> with status \<open>s\<close> to the payload \<open>P\<close> has been stored under
  the fingerprint of \<open>P\<close> (by \<open>Set\<close>, with the timestamp of the instant \<open>t0\<close> and the expiry
  of the instant \<open>t1\<close>), a later POST of \<open>P\<close> inside the TTL window (the engine's clock has
  not reached the second of expiry, and no more than the TTL has passed since the
  entry's timestamp), with the store read without fault, is answered from the cache:
  the handler hands status \<open>s\<close> and body \<open>R\<close>, byte for byte, to the response writer and
  nothing is sent upstream. The writer takes every status from 100 to 999, so the
  status 200 of every response the handler judges cacheable.
\<close>

theorem hit_returns_stored_response:
  assumes stored: "Set cm (GenerateKey cm P) P R s t0 t1 None = (Ret None, cm')"
    and s: "int64 s" and t0: "clock_reading t0"
    and post: "Method r = ''POST''" "Body r = Some P"
    and view: "view_fault e = None"
    and live: "\<not> isDeletedOrExpired (WithTTL t1 (ttl cm)) (clock_view e)"
    and fresh: "time_Since (clock_get e) (Unix t0) \<le> ttl cm"
  shows "\<exists>d'. db cm' = Some d'
     \<and> DataAPIHandler e (Some cm') r =
         (if s < 100 \<or> 999 < s then
            \<lparr>resp = Panic,
             manager = Some (cm'\<lparr>db := Some (d'\<lparr>journal := journal d' @ [OpView (GenerateKey cm P)]\<rparr>)\<rparr>),
             forwarded = [], done_log = None\<rparr>
          else
            \<lparr>resp = Ret \<lparr>header = [(''Content-Type'', ''application/json'')], status = s, body = R\<rparr>,
             manager = Some (cm'\<lparr>db := Some (d'\<lparr>journal := journal d' @ [OpView (GenerateKey cm P)]\<rparr>)\<rparr>),
             forwarded = [], done_log = Some (True, GenerateKey cm P)\<rparr>)
     \<and> (shouldCache s R \<longrightarrow>
          resp (DataAPIHandler e (Some cm') r)
            = Ret \<lparr>header = [(''Content-Type'', ''application/json'')], status = s, body = R\<rparr>
          \<and> forwarded (DataAPIHandler e (Some cm') r) = [])"
proof -
  from Set_stored [OF stored] obtain d where d: "db cm = Some d"
    and k: "modify (GenerateKey cm P) [] = None"
    and cm': "cm' = cm\<lparr>db := Some (d\<lparr>items := (items d)(GenerateKey cm P \<mapsto>
                 \<lparr>val = Marshal_entry \<lparr>RequestBody = P, ResponseBody = R, StatusCode = s,
                                        Timestamp = Unix t0\<rparr>,
                  ExpiresAt = WithTTL t1 (ttl cm)\<rparr>),
               journal := journal d @ [OpSet (GenerateKey cm P)]\<rparr>)\<rparr>"
    by blast
  let ?en = "\<lparr>RequestBody = P, ResponseBody = R, StatusCode = s, Timestamp = Unix t0\<rparr>"
  let ?it = "\<lparr>val = Marshal_entry ?en, ExpiresAt = WithTTL t1 (ttl cm)\<rparr>"
  let ?d = "d\<lparr>items := (items d)(GenerateKey cm P \<mapsto> ?it),
              journal := journal d @ [OpSet (GenerateKey cm P)]\<rparr>"
  let ?m = "cm'\<lparr>db := Some (?d\<lparr>journal := journal ?d @ [OpView (GenerateKey cm P)]\<rparr>)\<rparr>"
  have g: "Get cm' (GenerateKey cm P) (clock_view e) (clock_get e) None (delete_fault e)
             = (Ret (Some ?en), ?m)"
    using Get_stored [where cm = cm' and d = ?d and key = "GenerateKey cm P" and en = ?en
        and it = ?it and now = "clock_view e" and now' = "clock_get e" and df = "delete_fault e"]
      s fresh live k Unix_int64 [OF t0]
    by (simp add: cm')
  have key: "GenerateKey cm' P = GenerateKey cm P" by (simp add: GenerateKey_def)
  have h: "DataAPIHandler e (Some cm') r =
      write_response [(''Content-Type'', ''application/json'')] s R (Some ?m) [] (True, GenerateKey cm P)"
    using handler_hit [where e = e and cm = cm' and r = r and P = P and en = ?en and cm' = ?m] g
      post view
    by (simp add: key)
  have c: "shouldCache s R \<longrightarrow> \<not> (s < 100 \<or> 999 < s)"
    by (simp add: shouldCache_iff)
  show ?thesis
    using h c by (intro exI [of _ ?d]) (simp add: write_response_def cm')
qed

theorem hit_returns_stored_response_witness:
  "Set ex_cm (GenerateKey ex_cm ''{}'') ''{}'' ex_ok 200 1700000000000000000 1700000000000000000 None =
     (Ret None, \<lparr>db = Some \<lparr>items = [GenerateKey ex_cm ''{}'' \<mapsto>
                     \<lparr>val = Marshal_entry ex_entry, ExpiresAt = 1700086400\<rparr>],
                   journal = [OpSet (GenerateKey ex_cm ''{}'')]\<rparr>,
                 ttl = 86400000000000\<rparr>)
   \<and> resp (DataAPIHandler (ex_env 500 ''unused'')
         (Some \<lparr>db = Some \<lparr>items = [GenerateKey ex_cm ''{}'' \<mapsto>
                     \<lparr>val = Marshal_entry ex_entry, ExpiresAt = 1700086400\<rparr>],
                   journal = [OpSet (GenerateKey ex_cm ''{}'')]\<rparr>,
                 ttl = 86400000000000\<rparr>) ex_req)
       = Ret \<lparr>header = [(''Content-Type'', ''application/json'')], status = 200, body = ex_ok\<rparr>
   \<and> forwarded (DataAPIHandler (ex_env 500 ''unused'')
         (Some \<lparr>db = Some \<lparr>items = [GenerateKey ex_cm ''{}'' \<mapsto>
                     \<lparr>val = Marshal_entry ex_entry, ExpiresAt = 1700086400\<rparr>],
                   journal = [OpSet (GenerateKey ex_cm ''{}'')]\<rparr>,
                 ttl = 86400000000000\<rparr>) ex_req)
       = []"
proof -
  have small: "length (Marshal_entry \<lparr>RequestBody = ''{}'', ResponseBody = ex_ok, StatusCode = 200,
                                       Timestamp = 1700000000\<rparr>) \<le> ValueLogFileSize"
    by (rule ex_entry_small) (simp add: ex_ok_def)
  have s: "Set ex_cm (GenerateKey ex_cm ''{}'') ''{}'' ex_ok 200 1700000000000000000 1700000000000000000 None =
     (Ret None, \<lparr>db = Some \<lparr>items = [GenerateKey ex_cm ''{}'' \<mapsto>
                     \<lparr>val = Marshal_entry ex_entry, ExpiresAt = 1700086400\<rparr>],
                   journal = [OpSet (GenerateKey ex_cm ''{}'')]\<rparr>,
                 ttl = 86400000000000\<rparr>)"
    using small
    by (simp add: Set_def db_set_entry_GenerateKey ex_cm_def ex_entry_def Unix_def WithTTL_def
          uint64_def)
  show ?thesis
    using hit_returns_stored_response [where e = "ex_env 500 ''unused''" and r = ex_req, OF s] s
    by (auto simp: ex_req_def ex_env_def ex_cm_def time_Since_def Unix_def maxDuration_def
          minDuration_def int64_def clock_reading_def WithTTL_def uint64_def
          isDeletedOrExpired_def)
qed



subsection \<open>Responses the proxy makes itself\<close>

text \<open>
  C4: on each of the three proxy-internal failures (a method other than POST, a request
  body that cannot be read, a forwarded request that brings no upstream response) the
  handler answers with status 200 and the JSON object \<open>{"code":c,"msg":m}\<close> whose code
  is the proxy's own status for the failure: 405, 400 and 500. Decoding the body gives
  that code back.
\<close>

theorem proxy_failures_are_200_envelopes:
  assumes "Method r \<noteq> ''POST'' \<or> Body r = None
         \<or> (\<exists>P. Body r = Some P \<and> forwarded (DataAPIHandler e cmo r) \<noteq> []
                \<and> (\<forall>s hs R. upstream e P \<noteq> Responded s hs R))"
  shows \<open>\<exists>rs. resp (DataAPIHandler e cmo r) = Ret rs
     \<and> status rs = 200
     \<and> header rs = [(''Content-Type'', ''application/json'')]
     \<and> (\<exists>c m. (c, m) = (if Method r \<noteq> ''POST'' then (405, msg_method)
                          else if Body r = None then (400, msg_read) else (500, msg_forward))
            \<and> body rs = ''{"code":'' @ itoa c @ '',"msg":"'' @ m @ ''"}''
            \<and> Unmarshal_result (body rs) = Inr \<lparr>Code = c, Msg = m\<rparr>)\<close>
proof -
  consider (bad_method) "Method r \<noteq> ''POST''"
    | (body) "Method r = ''POST''" "Body r = None"
    | (forward) P where "Method r = ''POST''" "Body r = Some P"
        "forwarded (DataAPIHandler e cmo r) \<noteq> []"
        "\<forall>s hs R. upstream e P \<noteq> Responded s hs R"
    using assms by (cases "Method r = ''POST''") auto
  then show ?thesis
  proof cases
    case bad_method
    with handler_early(1) [of r e cmo]
    have "resp (DataAPIHandler e cmo r)
            = Ret (sendErrorResponse [(''Content-Type'', ''application/json'')] msg_method 405)"
      by simp
    with bad_method error_body_405 show ?thesis
      by (simp add: sendErrorResponse_def itoa_def digits.simps digit_char_def)
  next
    case body
    with handler_early(2) [of r e cmo]
    have "resp (DataAPIHandler e cmo r)
            = Ret (sendErrorResponse [(''Content-Type'', ''application/json'')] msg_read 400)"
      by simp
    with body error_body_400 show ?thesis
      by (simp add: sendErrorResponse_def itoa_def digits.simps digit_char_def)
  next
    case forward
    from handler_forward_failed [OF forward(1,2,3,4)] forward(1,2) error_body_500
    show ?thesis
      by (simp add: sendErrorResponse_def itoa_def digits.simps digit_char_def)
  qed
qed

theorem proxy_failures_are_200_envelopes_witness:
  \<open>DataAPIHandler (ex_env 200 ex_ok) (Some ex_cm) \<lparr>Method = ''GET'', Body = Some ''{}''\<rparr> =
     \<lparr>resp = Ret \<lparr>header = [(''Content-Type'', ''application/json'')], status = 200,
                    body = ''{"code":405,"msg":"'' @ msg_method @ ''"}''\<rparr>,
      manager = Some ex_cm, forwarded = [], done_log = None\<rparr>
   \<and> Unmarshal_result (''{"code":405,"msg":"'' @ msg_method @ ''"}'') = Inr \<lparr>Code = 405, Msg = msg_method\<rparr>\<close>
proof -
  have h: "DataAPIHandler (ex_env 200 ex_ok) (Some ex_cm) \<lparr>Method = ''GET'', Body = Some ''{}''\<rparr> =
     \<lparr>resp = Ret (sendErrorResponse [(''Content-Type'', ''application/json'')] msg_method 405),
      manager = Some ex_cm, forwarded = [], done_log = None\<rparr>"
    by (simp add: DataAPIHandler_def Header_Set_def)
  from proxy_failures_are_200_envelopes [of "\<lparr>Method = ''GET'', Body = Some ''{}''\<rparr>"
      "ex_env 200 ex_ok" "Some ex_cm"]
  show ?thesis
    using h by (simp add: sendErrorResponse_def error_body_405)
qed

subsection \<open>Faults of the store\<close>

lemma Get_view_fault:
  assumes "db cm = Some d"
  shows "Get cm key now now' (Some err) df
           = (Ret None, cm\<lparr>db := Some (d\<lparr>journal := journal d @ [OpView key]\<rparr>)\<rparr>)"
  using assms by (simp add: Get_def db_view_def)

lemma Get_absent:
  assumes "db cm = Some d" and "items d key = None"
  shows "Get cm key now now' None df
           = (Ret None, cm\<lparr>db := Some (d\<lparr>journal := journal d @ [OpView key]\<rparr>)\<rparr>)"
  using assms by (simp add: Get_def db_view_def)

lemma Get_corrupt:
  assumes "db cm = Some d" and "items d key = Some it" and "Unmarshal_entry (val it) = Inl x"
  shows "Get cm key now now' None df
           = (Ret None, cm\<lparr>db := Some (d\<lparr>journal := journal d @ [OpView key]\<rparr>)\<rparr>)"
  using assms by (simp add: Get_def db_view_def)

text \<open>What the handler hands to the response writer for an upstream reply.\<close>

lemma response_after_miss:
  assumes "Method r = ''POST''" and "Body r = Some P"
    and "Get cm (GenerateKey cm P) (clock_view e) (clock_get e) (view_fault e) (delete_fault e)
           = (Ret None, cm')"
  shows "resp (DataAPIHandler e (Some cm) r) =
           (case upstream e P of
              Responded s hs R \<Rightarrow>
                if s < 100 \<or> 999 < s then Panic
                else Ret \<lparr>header = [(''Content-Type'', ''application/json'')], status = s, body = R\<rparr>
            | _ \<Rightarrow> Ret (sendErrorResponse [(''Content-Type'', ''application/json'')] msg_forward 500))
         \<and> forwarded (DataAPIHandler e (Some cm) r) = [P]"
proof -
  from Get_Ret_db [OF assms(3)] obtain d' where d': "db cm' = Some d'" by blast
  show ?thesis
  proof (cases "upstream e P")
    case (Responded s hs R)
    from handler_miss [OF assms d' this] show ?thesis
      by (simp add: Responded write_response_def)
  next
    case DoFailed
    then have "\<forall>s hs R. upstream e P \<noteq> Responded s hs R" by simp
    from handler_miss_failed [OF assms this] show ?thesis
      by (simp add: DoFailed)
  next
    case (ReadFailed s hs)
    then have "\<forall>s hs R. upstream e P \<noteq> Responded s hs R" by simp
    from handler_miss_failed [OF assms this] show ?thesis
      by (simp add: ReadFailed)
  qed
qed

lemma set_fault_irrelevant:
  "resp (DataAPIHandler (e\<lparr>set_fault := f\<rparr>) cmo r) = resp (DataAPIHandler e cmo r)
   \<and> forwarded (DataAPIHandler (e\<lparr>set_fault := f\<rparr>) cmo r) = forwarded (DataAPIHandler e cmo r)"
proof (cases "Method r = ''POST''")
  case False
  then show ?thesis by (simp add: handler_early)
next
  case True
  show ?thesis
  proof (cases "Body r")
    case None
    with True show ?thesis by (simp add: handler_early)
  next
    case (Some P)
    show ?thesis
    proof (cases cmo)
      case None
      with True Some show ?thesis by (simp add: handler_nocache)
    next
      case cm: (Some cm)
      obtain found cm' where g: "Get cm (GenerateKey cm P) (clock_view e) (clock_get e)
          (view_fault e) (delete_fault e) = (found, cm')"
        by (cases "Get cm (GenerateKey cm P) (clock_view e) (clock_get e) (view_fault e) (delete_fault e)")
      show ?thesis
      proof (cases found)
        case Panic
        with True Some cm g show ?thesis by (simp add: handler_panic)
      next
        case (Ret x)
        show ?thesis
        proof (cases x)
          case None
          with True Some cm Ret g show ?thesis by (simp add: response_after_miss)
        next
          case en: (Some en)
          with True Some cm Ret g show ?thesis by (simp add: handler_hit)
        qed
      qed
    qed
  qed
qed

text \<open>
  C6: the engine's fault on the write transaction changes neither what the handler hands
  to the response writer nor what is forwarded, for every request and every state of
  the cache; and for a POST with a readable body, an engine fault on the read
  transaction, like a stored value that does not decode, gives exactly what a miss gives
  (the same request on the store without that key, read without fault): the body is
  forwarded upstream and the upstream's status and body are handed to the response
  writer, which takes every status from 100 to 999; the 500 envelope is the answer when
  forwarding fails.
\<close>

theorem store_faults_never_reach_client:
  assumes "db cm = Some d" and "Method r = ''POST''" and "Body r = Some P"
  shows "resp (DataAPIHandler (e\<lparr>set_fault := Some err\<rparr>) cmo r')
           = resp (DataAPIHandler (e\<lparr>set_fault := None\<rparr>) cmo r')
     \<and> forwarded (DataAPIHandler (e\<lparr>set_fault := Some err\<rparr>) cmo r')
           = forwarded (DataAPIHandler (e\<lparr>set_fault := None\<rparr>) cmo r')
     \<and> resp (DataAPIHandler (e\<lparr>view_fault := Some err\<rparr>) (Some cm) r)
           = resp (DataAPIHandler (e\<lparr>view_fault := None\<rparr>)
               (Some (cm\<lparr>db := Some (d\<lparr>items := (items d)(GenerateKey cm P := None)\<rparr>)\<rparr>)) r)
     \<and> resp (DataAPIHandler (e\<lparr>view_fault := Some err\<rparr>) (Some cm) r)
           = (case upstream e P of
                Responded s hs R \<Rightarrow>
                  if s < 100 \<or> 999 < s then Panic
                  else Ret \<lparr>header = [(''Content-Type'', ''application/json'')], status = s, body = R\<rparr>
              | _ \<Rightarrow> Ret (sendErrorResponse [(''Content-Type'', ''application/json'')] msg_forward 500))
     \<and> forwarded (DataAPIHandler (e\<lparr>view_fault := Some err\<rparr>) (Some cm) r) = [P]
     \<and> (\<forall>it x. items d (GenerateKey cm P) = Some it \<and> Unmarshal_entry (val it) = Inl x \<longrightarrow>
           resp (DataAPIHandler (e\<lparr>view_fault := None\<rparr>) (Some cm) r)
             = resp (DataAPIHandler (e\<lparr>view_fault := None\<rparr>)
                 (Some (cm\<lparr>db := Some (d\<lparr>items := (items d)(GenerateKey cm P := None)\<rparr>)\<rparr>)) r)
           \<and> forwarded (DataAPIHandler (e\<lparr>view_fault := None\<rparr>) (Some cm) r) = [P])"
proof -
  let ?k = "GenerateKey cm P"
  let ?cm0 = "cm\<lparr>db := Some (d\<lparr>items := (items d)(?k := None)\<rparr>)\<rparr>"
  have k: "GenerateKey ?cm0 P = ?k" by (simp add: GenerateKey_def)
  have a: "resp (DataAPIHandler (e\<lparr>set_fault := Some err\<rparr>) cmo r')
           = resp (DataAPIHandler (e\<lparr>set_fault := None\<rparr>) cmo r')
     \<and> forwarded (DataAPIHandler (e\<lparr>set_fault := Some err\<rparr>) cmo r')
           = forwarded (DataAPIHandler (e\<lparr>set_fault := None\<rparr>) cmo r')"
    using set_fault_irrelevant [where e = e and f = "Some err" and cmo = cmo and r = r']
      set_fault_irrelevant [where e = e and f = None and cmo = cmo and r = r']
    by simp
  have miss0: "Get ?cm0 (GenerateKey ?cm0 P) (clock_view (e\<lparr>view_fault := None\<rparr>))
                 (clock_get (e\<lparr>view_fault := None\<rparr>))
                 (view_fault (e\<lparr>view_fault := None\<rparr>)) (delete_fault (e\<lparr>view_fault := None\<rparr>))
               = (Ret None, ?cm0\<lparr>db := Some ((d\<lparr>items := (items d)(?k := None)\<rparr>)
                                \<lparr>journal := journal d @ [OpView ?k]\<rparr>)\<rparr>)"
    using Get_absent [where cm = ?cm0 and d = "d\<lparr>items := (items d)(?k := None)\<rparr>" and key = ?k]
    by (simp add: k)
  have fault: "Get cm ?k (clock_view (e\<lparr>view_fault := Some err\<rparr>))
                 (clock_get (e\<lparr>view_fault := Some err\<rparr>))
                 (view_fault (e\<lparr>view_fault := Some err\<rparr>)) (delete_fault (e\<lparr>view_fault := Some err\<rparr>))
               = (Ret None, cm\<lparr>db := Some (d\<lparr>journal := journal d @ [OpView ?k]\<rparr>)\<rparr>)"
    using Get_view_fault [OF assms(1)] by simp
  note r0 = response_after_miss [OF assms(2,3) miss0]
  note r1 = response_after_miss [OF assms(2,3) fault]
  have b: "resp (DataAPIHandler (e\<lparr>view_fault := Some err\<rparr>) (Some cm) r)
           = resp (DataAPIHandler (e\<lparr>view_fault := None\<rparr>) (Some ?cm0) r)"
    using r0 r1 by simp
  have c: "\<forall>it x. items d ?k = Some it \<and> Unmarshal_entry (val it) = Inl x \<longrightarrow>
           resp (DataAPIHandler (e\<lparr>view_fault := None\<rparr>) (Some cm) r)
             = resp (DataAPIHandler (e\<lparr>view_fault := None\<rparr>) (Some ?cm0) r)
           \<and> forwarded (DataAPIHandler (e\<lparr>view_fault := None\<rparr>) (Some cm) r) = [P]"
  proof (intro allI impI)
    fix it x
    assume h: "items d ?k = Some it \<and> Unmarshal_entry (val it) = Inl x"
    then have "Get cm ?k (clock_view (e\<lparr>view_fault := None\<rparr>)) (clock_get (e\<lparr>view_fault := None\<rparr>))
                 (view_fault (e\<lparr>view_fault := None\<rparr>)) (delete_fault (e\<lparr>view_fault := None\<rparr>))
               = (Ret None, cm\<lparr>db := Some (d\<lparr>journal := journal d @ [OpView ?k]\<rparr>)\<rparr>)"
      using Get_corrupt [OF assms(1), where key = ?k and it = it and x = x] by simp
    from response_after_miss [OF assms(2,3) this] r0
    show "resp (DataAPIHandler (e\<lparr>view_fault := None\<rparr>) (Some cm) r)
             = resp (DataAPIHandler (e\<lparr>view_fault := None\<rparr>) (Some ?cm0) r)
           \<and> forwarded (DataAPIHandler (e\<lparr>view_fault := None\<rparr>) (Some cm) r) = [P]"
      by simp
  qed
  from a b c r1 show ?thesis by simp
qed

lemma ex_run:
  "DataAPIHandler (ex_env 200 ex_ok) (Some ex_cm) ex_req =
     \<lparr>resp = Ret \<lparr>header = [(''Content-Type'', ''application/json'')], status = 200, body = ex_ok\<rparr>,
      manager = Some \<lparr>db = Some \<lparr>items = [GenerateKey ex_cm ''{}'' \<mapsto>
             \<lparr>val = Marshal_entry ex_entry, ExpiresAt = 1700086400\<rparr>],
           journal = [OpView (GenerateKey ex_cm ''{}''), OpSet (GenerateKey ex_cm ''{}'')]\<rparr>,
         ttl = 86400000000000\<rparr>,
      forwarded = [''{}''], done_log = Some (False, GenerateKey ex_cm ''{}'')\<rparr>"
proof -
  have c: "shouldCache 200 ex_ok" by (simp add: shouldCache_iff ex_ok_parses)
  have small: "length (Marshal_entry \<lparr>RequestBody = ''{}'', ResponseBody = ex_ok, StatusCode = 200,
                                       Timestamp = 1700000000\<rparr>) \<le> ValueLogFileSize"
    by (rule ex_entry_small) (simp add: ex_ok_def)
  show ?thesis
    using handler_miss [where e = "ex_env 200 ex_ok" and cm = ex_cm and r = ex_req and P = "''{}''"
        and s = 200 and hs = "[(''Server'', ''upstream'')]" and R = ex_ok, OF _ _ ex_get_miss] c small
    by (simp add: ex_req_def ex_env_def ex_entry_def Unix_def write_response_def WithTTL_def uint64_def)
qed

theorem store_faults_never_reach_client_witness:
  "resp (DataAPIHandler ((ex_env 200 ex_ok)\<lparr>set_fault := Some (ErrEngine ''disk'')\<rparr>) (Some ex_cm) ex_req)
     = Ret \<lparr>header = [(''Content-Type'', ''application/json'')], status = 200, body = ex_ok\<rparr>
   \<and> resp (DataAPIHandler ((ex_env 200 ex_ok)\<lparr>view_fault := Some (ErrEngine ''disk'')\<rparr>) (Some ex_cm) ex_req)
     = Ret \<lparr>header = [(''Content-Type'', ''application/json'')], status = 200, body = ex_ok\<rparr>
   \<and> forwarded (DataAPIHandler ((ex_env 200 ex_ok)\<lparr>view_fault := Some (ErrEngine ''disk'')\<rparr>) (Some ex_cm) ex_req)
     = [''{}'']"
proof -
  have n: "(ex_env 200 ex_ok)\<lparr>set_fault := None\<rparr> = ex_env 200 ex_ok"
      "(ex_env 200 ex_ok)\<lparr>view_fault := None\<rparr> = ex_env 200 ex_ok"
    by (simp_all add: ex_env_def)
  have m: "ex_cm\<lparr>db := Some (\<lparr>items = Map.empty, journal = []\<rparr>
             \<lparr>items := (items \<lparr>items = Map.empty, journal = []\<rparr>)(GenerateKey ex_cm ''{}'' := None)\<rparr>)\<rparr> = ex_cm"
    by (simp add: ex_cm_def)
  have h: "db ex_cm = Some \<lparr>items = Map.empty, journal = []\<rparr>" "Method ex_req = ''POST''"
      "Body ex_req = Some ''{}''"
    by (simp_all add: ex_cm_def ex_req_def)
  have rhs: "resp (DataAPIHandler (ex_env 200 ex_ok) (Some ex_cm) ex_req)
       = Ret \<lparr>header = [(''Content-Type'', ''application/json'')], status = 200, body = ex_ok\<rparr>"
    by (simp add: ex_run)
  show ?thesis
    using store_faults_never_reach_client [where e = "ex_env 200 ex_ok" and err = "ErrEngine ''disk''"
        and cmo = "Some ex_cm" and r' = ex_req, OF h]
    unfolding n m by (simp add: rhs)
qed

subsection \<open>Caching disabled\<close>

lemma manager_nocache: "manager (DataAPIHandler e None r) = None"
  by (auto simp: DataAPIHandler_def Let_def forwardRawRequestToTushareAPI_def write_response_def
        split: option.splits upstream_reply.splits)

lemma serve_nocache: "serve None reqs = map (\<lambda>er. DataAPIHandler (fst er) None (snd er)) reqs"
proof (induction reqs)
  case Nil
  then show ?case by simp
next
  case (Cons er reqs)
  obtain e r where er: "er = (e, r)" by (cases er)
  with Cons manager_nocache [of e r] show ?case by simp
qed

text \<open>
  C7: with caching disabled in the configuration, start-up opens no store and leaves the
  global manager nil; every POST with a readable body is then forwarded upstream, the
  upstream's status and body are handed to the response writer (which takes every status
  from 100 to 999; the 500 envelope is the answer when forwarding fails), no key is
  computed (the closing log line carries the empty key) and no store exists to operate
  on, before or after. A sequence of requests is served by the same rule, one by one,
  whatever was requested before.
\<close>

theorem disabled_cache_always_forwards:
  assumes "\<not> Enabled cfg" and "Method r = ''POST''" and "Body r = Some P"
  shows "init_cache cfg open_db = Inr None
     \<and> DataAPIHandler e None r =
         (case upstream e P of
            Responded s hs R \<Rightarrow>
              if s < 100 \<or> 999 < s then
                \<lparr>resp = Panic, manager = None, forwarded = [P], done_log = None\<rparr>
              else
                \<lparr>resp = Ret \<lparr>header = [(''Content-Type'', ''application/json'')], status = s, body = R\<rparr>,
                 manager = None, forwarded = [P], done_log = Some (False, [])\<rparr>
          | _ \<Rightarrow>
              \<lparr>resp = Ret (sendErrorResponse [(''Content-Type'', ''application/json'')] msg_forward 500),
               manager = None, forwarded = [P], done_log = None\<rparr>)
     \<and> forwarded (DataAPIHandler e None r) = [P]
     \<and> manager (DataAPIHandler e None r) = None
     \<and> serve None reqs = map (\<lambda>er. DataAPIHandler (fst er) None (snd er)) reqs"
  using assms handler_nocache [OF assms(2,3), of e] serve_nocache [of reqs]
  by (cases "upstream e P") (simp_all add: init_cache_def write_response_def)

theorem disabled_cache_always_forwards_witness:
  "init_cache \<lparr>Enabled = False, DBPath = ''./data/cache'', TTLDays = 100\<rparr> (\<lambda>p. Inl (ErrEngine ''unused'')) = Inr None
   \<and> serve None [(ex_env 200 ex_ok, ex_req), (ex_env 200 ex_ok, ex_req)] =
       [\<lparr>resp = Ret \<lparr>header = [(''Content-Type'', ''application/json'')], status = 200, body = ex_ok\<rparr>,
         manager = None, forwarded = [''{}''], done_log = Some (False, [])\<rparr>,
        \<lparr>resp = Ret \<lparr>header = [(''Content-Type'', ''application/json'')], status = 200, body = ex_ok\<rparr>,
         manager = None, forwarded = [''{}''], done_log = Some (False, [])\<rparr>]"
  using disabled_cache_always_forwards [where cfg = "\<lparr>Enabled = False, DBPath = ''./data/cache'', TTLDays = 100\<rparr>"
      and r = ex_req and P = "''{}''" and e = "ex_env 200 ex_ok"
      and open_db = "\<lambda>p. Inl (ErrEngine ''unused'')"
      and reqs = "[(ex_env 200 ex_ok, ex_req), (ex_env 200 ex_ok, ex_req)]"]
  by (simp add: ex_req_def ex_env_def)

subsection \<open>Response headers\<close>

lemma forward_drop_headers:
  "forwardRawRequestToTushareAPI (drop_headers up) b = forwardRawRequestToTushareAPI up b"
  by (cases "up b") (simp_all add: forwardRawRequestToTushareAPI_def drop_headers_def)

text \<open>
  C10: on every response the handler emits (proxy-made error, cached or live), the only
  header it sets is \<open>Content-Type: application/json\<close>, and the whole outcome is the same
  when the upstream's response headers are taken away: status and body are all that is
  taken from the upstream response.
\<close>

theorem only_content_type_header:
  "(\<forall>rs. resp (DataAPIHandler e cmo r) = Ret rs \<longrightarrow> header rs = [(''Content-Type'', ''application/json'')])
   \<and> DataAPIHandler (e\<lparr>upstream := drop_headers (upstream e)\<rparr>) cmo r = DataAPIHandler e cmo r"
proof
  show "\<forall>rs. resp (DataAPIHandler e cmo r) = Ret rs \<longrightarrow> header rs = [(''Content-Type'', ''application/json'')]"
    by (auto simp: DataAPIHandler_def Let_def Header_Set_def sendErrorResponse_def write_response_def
          split: if_splits option.splits go.splits prod.splits)
  show "DataAPIHandler (e\<lparr>upstream := drop_headers (upstream e)\<rparr>) cmo r = DataAPIHandler e cmo r"
    by (simp add: DataAPIHandler_def forward_drop_headers
          cong: option.case_cong go.case_cong prod.case_cong if_cong)
qed

theorem only_content_type_header_witness:
  "DataAPIHandler (ex_env 200 ex_ok) (Some ex_cm) ex_req =
     \<lparr>resp = Ret \<lparr>header = [(''Content-Type'', ''application/json'')], status = 200, body = ex_ok\<rparr>,
      manager = Some \<lparr>db = Some \<lparr>items = [GenerateKey ex_cm ''{}'' \<mapsto>
             \<lparr>val = Marshal_entry ex_entry, ExpiresAt = 1700086400\<rparr>],
           journal = [OpView (GenerateKey ex_cm ''{}''), OpSet (GenerateKey ex_cm ''{}'')]\<rparr>,
         ttl = 86400000000000\<rparr>,
      forwarded = [''{}''], done_log = Some (False, GenerateKey ex_cm ''{}'')\<rparr>
   \<and> upstream (ex_env 200 ex_ok) ''{}'' = Responded 200 [(''Server'', ''upstream'')] ex_ok
   \<and> DataAPIHandler ((ex_env 200 ex_ok)\<lparr>upstream := drop_headers (upstream (ex_env 200 ex_ok))\<rparr>) (Some ex_cm) ex_req
       = DataAPIHandler (ex_env 200 ex_ok) (Some ex_cm) ex_req"
  using only_content_type_header [of "ex_env 200 ex_ok" "Some ex_cm" ex_req] ex_run
  by (simp add: ex_env_def)

end
